theory Spec2Isabelle
  imports Main "HOL-Library.Sublist"
begin

section \<open>Python strings\<close>

text \<open>
  A Python \<^verbatim>\<open>str\<close> is a sequence of Unicode code points, so a character is the
  number of its code point and a string is a list of them. The delimiter on which
  \<^verbatim>\<open>convert_dict_to_markdown\<close> splits lies outside ASCII, and \<^verbatim>\<open>str.split()\<close> and
  \<^verbatim>\<open>str.strip()\<close> treat the whole Unicode whitespace class as blank, so bytes would
  not do. \<open>ascii\<close> turns an ASCII literal of the source into such a string.
\<close>

type_synonym pychar = nat
type_synonym pystr = "pychar list"

definition ascii :: "string \<Rightarrow> pystr" where
  "ascii s = map of_char s"

text \<open>
  The characters for which \<^verbatim>\<open>str.isspace()\<close> holds; \<^verbatim>\<open>split()\<close> without argument and
  \<^verbatim>\<open>strip()\<close> use the same class: TAB, LF, VT, FF, CR, the separators FS, GS, RS and US,
  the space, NEL, the no-break space, and the Unicode spaces and line separators.
\<close>

definition is_space :: "pychar \<Rightarrow> bool" where
  "is_space c \<longleftrightarrow>
     (0x9 \<le> c \<and> c \<le> 0xD) \<or> (0x1C \<le> c \<and> c \<le> 0x20) \<or> c = 0x85 \<or> c = 0xA0 \<or>
     c = 0x1680 \<or> (0x2000 \<le> c \<and> c \<le> 0x200A) \<or> c = 0x2028 \<or> c = 0x2029 \<or>
     c = 0x202F \<or> c = 0x205F \<or> c = 0x3000"

text \<open>
  \<^verbatim>\<open>s.split()\<close>: skip whitespace; if the string is exhausted, stop; otherwise the word
  runs up to the next whitespace character, and the scan goes on behind it.
\<close>

function py_split :: "pystr \<Rightarrow> pystr list" where
  "py_split s =
     (case dropWhile is_space s of
        [] \<Rightarrow> []
      | c # cs \<Rightarrow>
          (c # takeWhile (\<lambda>x. \<not> is_space x) cs) #
          py_split (dropWhile (\<lambda>x. \<not> is_space x) cs))"
  by pat_completeness auto
termination
proof (relation "measure length")
  fix s :: pystr and c cs
  assume "dropWhile is_space s = c # cs"
  then have "length cs < length s"
    using length_dropWhile_le [of is_space s] by simp
  then show "(dropWhile (\<lambda>x. \<not> is_space x) cs, s) \<in> measure length"
    using length_dropWhile_le [of "\<lambda>x. \<not> is_space x" cs] by simp
qed simp

declare py_split.simps [simp del]

text \<open>\<^verbatim>\<open>sep.join(xs)\<close>.\<close>

fun py_join :: "pystr \<Rightarrow> pystr list \<Rightarrow> pystr" where
  "py_join sep [] = []"
| "py_join sep [x] = x"
| "py_join sep (x # y # ys) = x @ sep @ py_join sep (y # ys)"

text \<open>\<^verbatim>\<open>s.strip()\<close>: whitespace is removed from the front and from the back.\<close>

definition py_strip :: "pystr \<Rightarrow> pystr" where
  "py_strip s = rev (dropWhile is_space (rev (dropWhile is_space s)))"

text \<open>
  \<^verbatim>\<open>s.split(sep)\<close> for a separator given as its first character and the rest, which
  makes it non-empty (Python raises \<^verbatim>\<open>ValueError\<close> on an empty one, and the source
  passes a literal of two characters). The scan runs from the left; at a match the
  part before it is closed and the scan goes on behind the separator.
\<close>

function py_split_sep :: "pystr \<Rightarrow> pychar \<Rightarrow> pystr \<Rightarrow> pystr list" where
  "py_split_sep [] d ds = [[]]"
| "py_split_sep (c # cs) d ds =
     (if c = d \<and> prefix ds cs then [] # py_split_sep (drop (length ds) cs) d ds
      else (case py_split_sep cs d ds of
              [] \<Rightarrow> [[c]]
            | w # ws \<Rightarrow> (c # w) # ws))"
  by pat_completeness auto
termination
  by (relation "measure (\<lambda>(s, d, ds). length s)") auto

text \<open>\<^verbatim>\<open>str(n)\<close> for an integer: its decimal digits, with a sign when negative.\<close>

fun digits :: "nat \<Rightarrow> pystr" where
  "digits n = (if n < 10 then [48 + n] else digits (n div 10) @ [48 + n mod 10])"

declare digits.simps [simp del]

definition py_str_int :: "int \<Rightarrow> pystr" where
  "py_str_int i = (if i < 0 then 0x2D # digits (nat (- i)) else digits (nat i))"

section \<open>Normalisation to a single line\<close>

text \<open>
  Both extraction functions turn the text into one line. \<^verbatim>\<open>extract_text_from_pdf\<close>
  computes \<^verbatim>\<open>" ".join(extracted_text.split())\<close>, and \<^verbatim>\<open>fallback_extract_text\<close>
  computes \<^verbatim>\<open>" ".join(text.split()).strip()\<close>.
\<close>

definition single_line_text :: "pystr \<Rightarrow> pystr" where
  "single_line_text extracted_text = py_join (ascii '' '') (py_split extracted_text)"

definition single_line_text_fallback :: "pystr \<Rightarrow> pystr" where
  "single_line_text_fallback text = py_strip (py_join (ascii '' '') (py_split text))"

text \<open>
  The specification's wording of the same operation, written independently of the
  code: leading and trailing whitespace is removed, and every remaining run of
  whitespace characters becomes one space.
\<close>

function collapse_runs :: "pystr \<Rightarrow> pystr" where
  "collapse_runs [] = []"
| "collapse_runs (c # cs) =
     (if is_space c then 0x20 # collapse_runs (dropWhile is_space cs) else c # collapse_runs cs)"
  by pat_completeness auto
termination
  by (relation "measure length") (auto simp: length_dropWhile_le less_Suc_eq_le)

definition normalize_spec :: "pystr \<Rightarrow> pystr" where
  "normalize_spec s = collapse_runs (py_strip s)"

text \<open>
  The invariant of the specification's ExtractedText: the only whitespace character is
  the space, no two spaces are adjacent, and the text neither starts nor ends with one.
\<close>

definition is_extracted_text :: "pystr \<Rightarrow> bool" where
  "is_extracted_text t \<longleftrightarrow>
     (\<forall>c\<in>set t. is_space c \<longrightarrow> c = 0x20) \<and> \<not> sublist [0x20, 0x20] t \<and>
     (t \<noteq> [] \<longrightarrow> hd t \<noteq> 0x20 \<and> last t \<noteq> 0x20)"

text \<open>
  Two notions for the proofs: a word is a non-empty string without whitespace, and
  \<open>py_rstrip\<close> is the half of \<open>py_strip\<close> that works at the end of the string.
\<close>

definition word_ok :: "pystr \<Rightarrow> bool" where
  "word_ok w \<longleftrightarrow> w \<noteq> [] \<and> (\<forall>c\<in>set w. \<not> is_space c)"

definition py_rstrip :: "pystr \<Rightarrow> pystr" where
  "py_rstrip s = rev (dropWhile is_space (rev s))"

section \<open>The user interface and the outside world\<close>

text \<open>
  \<^verbatim>\<open>st.warning\<close> and \<^verbatim>\<open>st.error\<close> put a message on the page. The page is the list of
  the messages shown so far; a function that may report takes it and returns it
  extended.
\<close>

datatype st_message = StWarning pystr | StError pystr

type_synonym ui = "st_message list"

text \<open>
  A call into a library or over the network either raises an exception, of which the
  code reads at most \<^verbatim>\<open>str(e)\<close>, or returns a value.
\<close>

datatype 'a outcome = Raises pystr | Returns 'a

text \<open>
  A \<^verbatim>\<open>requests\<close> response: the status code and what \<^verbatim>\<open>response.json()\<close> does,
  which raises when the body is not JSON.
\<close>

record 'j response =
  status_code :: int
  json :: "'j outcome"

text \<open>
  What the code can observe of the OCR service's JSON body: only a JSON object has
  \<^verbatim>\<open>.get\<close>, the key \<^verbatim>\<open>text\<close> is present in it or not, and only a string value has
  \<^verbatim>\<open>.split\<close>. Any other body or value raises \<^verbatim>\<open>AttributeError\<close> at that call.
\<close>

datatype json_text = TextStr pystr | TextOther

datatype ocr_json = JsonObject "json_text option" | JsonOther

text \<open>
  One run of the extraction on one uploaded file: the configured secret
  \<^verbatim>\<open>st.secrets["RAPIDAPI_KEY"]\<close>, if any; the outcome of \<^verbatim>\<open>pdf_file.getvalue()\<close> followed
  by \<^verbatim>\<open>requests.post\<close> to the OCR endpoint; and what PyPDF2 makes of the file: the
  import and \<^verbatim>\<open>PdfReader(pdf_file)\<close> raise, or there are pages, each with the outcome of
  the statement \<^verbatim>\<open>text += page.extract_text()\<close>.
\<close>

record pdf_env =
  rapidapi_key :: "pystr option"
  ocr_post :: "ocr_json response outcome"
  pdf_pages :: "pystr outcome list outcome"

datatype py_error = KeyError

section \<open>Text extraction\<close>

text \<open>The loop of \<^verbatim>\<open>fallback_extract_text\<close> over the pages, with the text so far.\<close>

fun extract_pages :: "pystr \<Rightarrow> pystr outcome list \<Rightarrow> pystr outcome" where
  "extract_pages text [] = Returns text"
| "extract_pages text (page # pages) =
     (case page of
        Raises e \<Rightarrow> Raises e
      | Returns t \<Rightarrow> extract_pages (text @ t) pages)"

text \<open>The \<^verbatim>\<open>try\<close> block of \<^verbatim>\<open>fallback_extract_text\<close>.\<close>

definition fallback_try :: "pdf_env \<Rightarrow> pystr outcome" where
  "fallback_try env =
     (case pdf_pages env of
        Raises e \<Rightarrow> Raises e
      | Returns pages \<Rightarrow>
          (case extract_pages [] pages of
             Raises e \<Rightarrow> Raises e
           | Returns text \<Rightarrow> Returns (single_line_text_fallback text)))"

definition fallback_extract_text :: "pdf_env \<Rightarrow> ui \<Rightarrow> pystr \<times> ui" where
  "fallback_extract_text env ui =
     (case fallback_try env of
        Returns single_line \<Rightarrow> (single_line, ui)
      | Raises e \<Rightarrow> ([], ui @ [StError (ascii ''Error in text extraction: '' @ e)]))"

text \<open>
  The \<^verbatim>\<open>try\<close> block of \<^verbatim>\<open>extract_text_from_pdf\<close>. The handler does not read the
  exception, so the two \<^verbatim>\<open>AttributeError\<close>s carry their name only.
\<close>

definition ocr_try :: "pdf_env \<Rightarrow> ui \<Rightarrow> (pystr \<times> ui) outcome" where
  "ocr_try env ui =
     (case ocr_post env of
        Raises e \<Rightarrow> Raises e
      | Returns response \<Rightarrow>
          if status_code response = 200 then
            (case json response of
               Raises e \<Rightarrow> Raises e
             | Returns JsonOther \<Rightarrow> Raises (ascii ''AttributeError'')
             | Returns (JsonObject None) \<Rightarrow> Returns (single_line_text [], ui)
             | Returns (JsonObject (Some (TextStr extracted_text))) \<Rightarrow>
                 Returns (single_line_text extracted_text, ui)
             | Returns (JsonObject (Some TextOther)) \<Rightarrow> Raises (ascii ''AttributeError''))
          else Returns (fallback_extract_text env ui))"

text \<open>
  The headers are built before the \<^verbatim>\<open>try\<close>, so a missing secret is the one exception
  that leaves the function.
\<close>

definition extract_text_from_pdf :: "pdf_env \<Rightarrow> ui \<Rightarrow> (py_error + pystr) \<times> ui" where
  "extract_text_from_pdf env ui =
     (case rapidapi_key env of
        None \<Rightarrow> (Inl KeyError, ui)
      | Some key \<Rightarrow>
          (case ocr_try env ui of
             Returns (single_line, ui') \<Rightarrow> (Inr single_line, ui')
           | Raises e \<Rightarrow>
               (case fallback_extract_text env
                       (ui @ [StWarning (ascii ''Using fallback PDF extraction method'')]) of
                  (single_line, ui') \<Rightarrow> (Inr single_line, ui'))))"

section \<open>The roadmap service\<close>

text \<open>
  \<^verbatim>\<open>call_visa_roadmap_api\<close>, given what \<^verbatim>\<open>requests.post\<close> does with the payload
  \<^verbatim>\<open>{"questionnaire": text}\<close>. The result \<open>None\<close> is Python's \<^verbatim>\<open>None\<close>; the branch for
  status 404 has no \<^verbatim>\<open>return\<close> and falls off the end of the function, which returns
  \<^verbatim>\<open>None\<close> as well.
\<close>

definition call_visa_roadmap_api ::
  "(pystr \<Rightarrow> 'j response outcome) \<Rightarrow> pystr \<Rightarrow> ui \<Rightarrow> 'j option \<times> ui" where
  "call_visa_roadmap_api post text ui =
     (case post text of
        Raises e \<Rightarrow> (None, ui @ [StError (ascii ''API Error: '' @ e)])
      | Returns response \<Rightarrow>
          if status_code response = 200 then
            (case json response of
               Raises e \<Rightarrow> (None, ui @ [StError (ascii ''API Error: '' @ e)])
             | Returns body \<Rightarrow> (Some body, ui))
          else if status_code response = 404 then
            (None, ui @ [StError (ascii ''API Error: Data Not Found ('' @
                                  py_str_int (status_code response) @ ascii '')'')])
          else (None, ui @ [StError (ascii ''API Error: '' @ py_str_int (status_code response))]))"

section \<open>The Markdown report\<close>

text \<open>
  The dictionary given to \<^verbatim>\<open>convert_dict_to_markdown\<close> is the specification's
  RoadmapResult: five keys, each of which may be absent, with string values and a
  sequence of strings for \<^verbatim>\<open>noc_codes\<close>. \<open>dict_get\<close> is \<^verbatim>\<open>data.get(key, default)\<close>.
\<close>

record roadmap_result =
  questionnaire :: "pystr option"
  job_roles :: "pystr option"
  noc_codes :: "pystr list option"
  crs_score :: "pystr option"
  roadmap :: "pystr option"

definition dict_get :: "'a option \<Rightarrow> 'a \<Rightarrow> 'a" where
  "dict_get v dflt = (case v of None \<Rightarrow> dflt | Some x \<Rightarrow> x)"

text \<open>
  The separator of the questionnaire, as the source file has it: the two code points
  U+00E2 and U+2014.
\<close>

definition delimiter_hd :: pychar where
  "delimiter_hd = 0xE2"

definition delimiter_tl :: pystr where
  "delimiter_tl = [0x2014]"

definition delimiter :: pystr where
  "delimiter = delimiter_hd # delimiter_tl"

text \<open>The f-string \<^verbatim>\<open>f"- {x}\n"\<close>, and \<^verbatim>\<open>f"{x}\n"\<close>.\<close>

definition list_item :: "pystr \<Rightarrow> pystr" where
  "list_item x = ascii ''- '' @ x @ [0x0A]"

definition text_line :: "pystr \<Rightarrow> pystr" where
  "text_line x = x @ [0x0A]"

text \<open>
  The two loops, each appending to \<^verbatim>\<open>markdown_content\<close>: the first skips a line whose
  \<^verbatim>\<open>strip()\<close> is empty, the second has no such test.
\<close>

fun questionnaire_loop :: "pystr list \<Rightarrow> pystr list \<Rightarrow> pystr list" where
  "questionnaire_loop markdown_content [] = markdown_content"
| "questionnaire_loop markdown_content (line # lines) =
     (if py_strip line \<noteq> []
      then questionnaire_loop (markdown_content @ [list_item (py_strip line)]) lines
      else questionnaire_loop markdown_content lines)"

fun noc_loop :: "pystr list \<Rightarrow> pystr list \<Rightarrow> pystr list" where
  "noc_loop markdown_content [] = markdown_content"
| "noc_loop markdown_content (noc # nocs) =
     noc_loop (markdown_content @ [list_item (py_strip noc)]) nocs"

definition title_heading :: pystr where
  "title_heading = text_line (ascii ''# Immigration Profile Report'')"

definition questionnaire_heading :: pystr where
  "questionnaire_heading = text_line (ascii ''## 1. Questionnaire and Response:'')"

definition job_roles_heading :: pystr where
  "job_roles_heading =
     text_line (ascii ''## 2. Job Roles Based on Education and Work Experience:'')"

definition noc_codes_heading :: pystr where
  "noc_codes_heading = text_line (ascii ''## 3. NOC Codes:'')"

definition crs_score_heading :: pystr where
  "crs_score_heading = text_line (ascii ''## 4. CRS Score Breakdown:'')"

definition roadmap_heading :: pystr where
  "roadmap_heading = text_line (ascii ''## 5. Roadmap for Canada Immigration:'')"

text \<open>
  The list \<^verbatim>\<open>markdown_content\<close> when the function reaches its last line, statement by
  statement, and the function itself, which joins the list with newlines.
\<close>

definition markdown_content :: "roadmap_result \<Rightarrow> pystr list" where
  "markdown_content data =
     (let content = [];
          content = content @ [title_heading];
          content = content @ [questionnaire_heading];
          content = questionnaire_loop content
                      (py_split_sep (dict_get (questionnaire data) []) delimiter_hd delimiter_tl);
          content = content @ [job_roles_heading];
          content = content @ [text_line (dict_get (job_roles data) [])];
          content = content @ [noc_codes_heading];
          content = noc_loop content (dict_get (noc_codes data) []);
          content = content @ [crs_score_heading];
          content = content @ [text_line (dict_get (crs_score data) [])];
          content = content @ [roadmap_heading];
          content = content @ [text_line (dict_get (roadmap data) [])]
      in content)"

definition convert_dict_to_markdown :: "roadmap_result \<Rightarrow> pystr" where
  "convert_dict_to_markdown data = py_join [0x0A] (markdown_content data)"

section \<open>Properties of the normalisation\<close>

subsection \<open>Splitting at whitespace\<close>

lemma ascii_space [simp]: "ascii '' '' = [0x20]"
  by (simp add: ascii_def)

lemma is_space_32 [simp]: "is_space 0x20"
  by (simp add: is_space_def)

lemma py_split_Nil [simp]: "py_split [] = []"
  by (simp add: py_split.simps)

lemma py_split_space [simp]: "is_space c \<Longrightarrow> py_split (c # cs) = py_split cs"
  by (simp add: py_split.simps [of "c # cs"] py_split.simps [of cs])

lemma py_split_word:
  "\<not> is_space c \<Longrightarrow>
   py_split (c # cs) =
     (c # takeWhile (\<lambda>x. \<not> is_space x) cs) # py_split (dropWhile (\<lambda>x. \<not> is_space x) cs)"
  by (simp add: py_split.simps [of "c # cs"])

lemma py_split_dropWhile [simp]: "py_split (dropWhile is_space s) = py_split s"
  by (induction s) simp_all

lemma py_split_all_space: "\<forall>c\<in>set s. is_space c \<Longrightarrow> py_split s = []"
  by (induction s) simp_all

lemma py_split_words: "w \<in> set (py_split s) \<Longrightarrow> word_ok w"
proof (induction s arbitrary: w rule: py_split.induct)
  case (1 s)
  show ?case
  proof (cases "dropWhile is_space s")
    case Nil
    with "1.prems" show ?thesis by (simp add: py_split.simps [of s])
  next
    case (Cons c cs)
    then have c: "\<not> is_space c"
      by (metis hd_dropWhile list.distinct(1) list.sel(1))
    from "1.prems" Cons
    have "w = c # takeWhile (\<lambda>x. \<not> is_space x) cs \<or>
          w \<in> set (py_split (dropWhile (\<lambda>x. \<not> is_space x) cs))"
      by (simp add: py_split.simps [of s])
    then show ?thesis
    proof
      assume "w = c # takeWhile (\<lambda>x. \<not> is_space x) cs"
      with c show ?thesis by (auto simp: word_ok_def dest: set_takeWhileD)
    next
      assume "w \<in> set (py_split (dropWhile (\<lambda>x. \<not> is_space x) cs))"
      with "1.IH" [OF Cons] show ?thesis by simp
    qed
  qed
qed

lemma py_split_word_append:
  assumes "word_ok w" and "r = [] \<or> is_space (hd r)"
  shows "py_split (w @ r) = w # py_split r"
proof -
  from assms(1) obtain c cs where w: "w = c # cs" and c: "\<not> is_space c"
    and cs: "\<forall>x\<in>set cs. \<not> is_space x"
    by (cases w) (auto simp: word_ok_def)
  have t: "takeWhile (\<lambda>x. \<not> is_space x) (cs @ r) = cs"
    using cs assms(2) by (cases r) (auto simp: takeWhile_append2 takeWhile_tail)
  have d: "dropWhile (\<lambda>x. \<not> is_space x) (cs @ r) = r"
    using cs assms(2) by (cases r) (auto simp: dropWhile_append2)
  show ?thesis
    using c by (simp add: w py_split_word t d)
qed

lemma py_split_join:
  "\<forall>w\<in>set ws. word_ok w \<Longrightarrow> py_split (py_join [0x20] ws) = ws"
proof (induction "[0x20::nat]" ws rule: py_join.induct)
  case 1
  show ?case by simp
next
  case (2 x)
  then show ?case using py_split_word_append [of x "[]"] by simp
next
  case (3 x y ys)
  then show ?case
    using py_split_word_append [of x "0x20 # py_join [0x20] (y # ys)"] by simp
qed

subsection \<open>Joining words with single spaces\<close>

lemma py_join_chars:
  "c \<in> set (py_join [0x20] ws) \<Longrightarrow> c = 0x20 \<or> (\<exists>w\<in>set ws. c \<in> set w)"
  by (induction "[0x20::nat]" ws rule: py_join.induct) auto

lemma py_join_Nil_iff: "\<forall>w\<in>set ws. word_ok w \<Longrightarrow> py_join [0x20] ws = [] \<longleftrightarrow> ws = []"
  by (induction "[0x20::nat]" ws rule: py_join.induct) (auto simp: word_ok_def)

lemma py_join_hd:
  "\<forall>w\<in>set ws. word_ok w \<Longrightarrow> ws \<noteq> [] \<Longrightarrow> hd (py_join [0x20] ws) = hd (hd ws)"
  by (induction "[0x20::nat]" ws rule: py_join.induct) (auto simp: word_ok_def)

lemma py_join_last:
  "\<forall>w\<in>set ws. word_ok w \<Longrightarrow> ws \<noteq> [] \<Longrightarrow> last (py_join [0x20] ws) = last (last ws)"
  by (induction "[0x20::nat]" ws rule: py_join.induct) (auto simp: word_ok_def py_join_Nil_iff)

lemma word_ok_ends: "word_ok w \<Longrightarrow> \<not> is_space (hd w) \<and> \<not> is_space (last w)"
  by (simp add: word_ok_def)

lemma no_double_append:
  "a \<notin> set x \<Longrightarrow> \<not> prefix [a] W \<Longrightarrow> \<not> sublist [a, a] W \<Longrightarrow> \<not> sublist [a, a] (x @ a # W)"
  by (induction x) (auto simp: sublist_Cons_right)

lemma py_join_no_double:
  "\<forall>w\<in>set ws. word_ok w \<Longrightarrow> \<not> sublist [0x20, 0x20] (py_join [0x20] ws)"
proof (induction "[0x20::nat]" ws rule: py_join.induct)
  case 1
  show ?case by simp
next
  case (2 x)
  then have "0x20 \<notin> set x" using is_space_32 by (auto simp: word_ok_def)
  then show ?case by (auto dest: set_mono_sublist)
next
  case (3 x y ys)
  let ?W = "py_join [0x20] (y # ys)"
  from 3 have x: "0x20 \<notin> set x" using is_space_32 by (auto simp: word_ok_def)
  from 3 have "\<not> is_space (hd ?W)"
    using py_join_hd [of "y # ys"] by (simp add: word_ok_def)
  moreover from 3 have "?W \<noteq> []" using py_join_Nil_iff [of "y # ys"] by simp
  ultimately have h: "\<not> prefix [0x20] ?W"
    using is_space_32 by (cases ?W) auto
  from 3 have ih: "\<not> sublist [0x20, 0x20] ?W" by simp
  show ?case
    using no_double_append [OF x h ih] by simp
qed

subsection \<open>The code against the specification's wording\<close>

lemma py_join_Cons: "ws \<noteq> [] \<Longrightarrow> py_join sep (w # ws) = w @ sep @ py_join sep ws"
  by (cases ws) simp_all

lemma py_split_Nil_iff: "py_split s = [] \<longleftrightarrow> (\<forall>c\<in>set s. is_space c)"
proof (induction s)
  case Nil
  show ?case by simp
next
  case (Cons c cs)
  then show ?case by (cases "is_space c") (simp_all add: py_split_word)
qed

lemma py_strip_alt: "py_strip s = py_rstrip (dropWhile is_space s)"
  by (simp add: py_strip_def py_rstrip_def)

lemma py_rstrip_append:
  "py_rstrip (xs @ ys) = (if \<forall>y\<in>set ys. is_space y then py_rstrip xs else xs @ py_rstrip ys)"
  by (auto simp: py_rstrip_def dropWhile_append)

lemma py_rstrip_all_space: "\<forall>c\<in>set s. is_space c \<Longrightarrow> py_rstrip s = []"
  by (simp add: py_rstrip_def)

lemma py_rstrip_keep: "s \<noteq> [] \<Longrightarrow> \<not> is_space (last s) \<Longrightarrow> py_rstrip s = s"
  by (cases s rule: rev_cases) (simp_all add: py_rstrip_def)

lemma py_rstrip_single: "py_rstrip [c] = (if is_space c then [] else [c])"
  by (simp add: py_rstrip_def)

lemma py_rstrip_Cons:
  "py_rstrip (c # cs) =
     (if \<forall>y\<in>set cs. is_space y then (if is_space c then [] else [c]) else c # py_rstrip cs)"
  using py_rstrip_append [of "[c]" cs] by (simp add: py_rstrip_single)

lemma py_strip_keep:
  "t = [] \<or> (\<not> is_space (hd t) \<and> \<not> is_space (last t)) \<Longrightarrow> py_strip t = t"
proof (cases t)
  case Nil
  then show ?thesis by (simp add: py_strip_def)
next
  case (Cons a list)
  assume "t = [] \<or> (\<not> is_space (hd t) \<and> \<not> is_space (last t))"
  with Cons have "\<not> is_space a" and "\<not> is_space (last t)" by auto
  then show ?thesis
    using Cons py_rstrip_keep [of t] by (simp add: py_strip_alt)
qed

lemma lstrip_rstrip_commute:
  "dropWhile is_space (py_rstrip t) = py_rstrip (dropWhile is_space t)"
proof (induction t)
  case Nil
  show ?case by (simp add: py_rstrip_def)
next
  case (Cons c cs)
  show ?case
  proof (cases "\<forall>y\<in>set cs. is_space y")
    case True
    then have e: "dropWhile is_space cs = []" by simp
    have "py_rstrip (dropWhile is_space cs) = []"
      unfolding e by (simp add: py_rstrip_def)
    with True show ?thesis
      by (cases "is_space c") (simp_all add: py_rstrip_Cons py_rstrip_single)
  next
    case False
    then show ?thesis
      using Cons by (cases "is_space c") (auto simp: py_rstrip_Cons)
  qed
qed

lemma collapse_runs_word:
  "\<forall>c\<in>set w. \<not> is_space c \<Longrightarrow> collapse_runs (w @ t) = w @ collapse_runs t"
  by (induction w) simp_all

lemma normalize_spec_eq: "normalize_spec s = py_join [0x20] (py_split s)"
  unfolding normalize_spec_def
proof (induction s rule: py_split.induct)
  case (1 s)
  show ?case
  proof (cases "dropWhile is_space s")
    case Nil
    then have "py_split s = []"
      by (simp add: py_split_Nil_iff)
    moreover have "py_strip s = []"
      unfolding py_strip_alt Nil by (simp add: py_rstrip_def)
    ultimately show ?thesis by simp
  next
    case (Cons c cs)
    define w where "w = c # takeWhile (\<lambda>x. \<not> is_space x) cs"
    define r where "r = dropWhile (\<lambda>x. \<not> is_space x) cs"
    have c: "\<not> is_space c"
      using Cons by (metis hd_dropWhile list.distinct(1) list.sel(1))
    have w: "\<forall>x\<in>set w. \<not> is_space x" "w \<noteq> []"
      using c by (auto simp: w_def dest: set_takeWhileD)
    then have lw: "\<not> is_space (last w)"
      using last_in_set [of w] by blast
    have s: "dropWhile is_space s = w @ r"
      by (simp add: Cons w_def r_def)
    have split: "py_split s = w # py_split r"
      by (simp add: py_split.simps [of s] Cons w_def r_def)
    have ih: "collapse_runs (py_strip r) = py_join [0x20] (py_split r)"
      using "1.IH" [OF Cons] by (simp add: r_def)
    show ?thesis
    proof (cases "\<forall>y\<in>set r. is_space y")
      case True
      then have "py_strip s = w"
        using w lw by (simp add: py_strip_alt s py_rstrip_append py_rstrip_keep)
      moreover have "py_split r = []"
        using True by (simp add: py_split_Nil_iff)
      ultimately show ?thesis
        using collapse_runs_word [OF w(1), of "[]"] by (simp add: split)
    next
      case False
      then have "r \<noteq> []" by auto
      then obtain x r' where r: "r = x # r'" by (cases r) auto
      have x: "is_space x"
        using r hd_dropWhile [of "\<lambda>x. \<not> is_space x" cs] by (simp add: r_def)
      have r': "\<not> (\<forall>y\<in>set r'. is_space y)"
        using False x by (simp add: r)
      have "py_rstrip (w @ r) = w @ py_rstrip r"
        using False by (auto simp: py_rstrip_append)
      moreover have "py_rstrip r = x # py_rstrip r'"
        using r' by (auto simp: r py_rstrip_Cons)
      ultimately have "py_strip s = w @ x # py_rstrip r'"
        by (simp add: py_strip_alt s)
      then have "collapse_runs (py_strip s) = w @ 0x20 # collapse_runs (dropWhile is_space (py_rstrip r'))"
        using x by (simp add: collapse_runs_word [OF w(1)])
      also have "dropWhile is_space (py_rstrip r') = py_strip r"
        using x by (simp add: lstrip_rstrip_commute py_strip_alt r)
      finally have "collapse_runs (py_strip s) = w @ 0x20 # py_join [0x20] (py_split r)"
        by (simp add: ih)
      moreover have "py_split r \<noteq> []"
        using False by (simp add: py_split_Nil_iff)
      ultimately show ?thesis
        by (simp add: split py_join_Cons)
    qed
  qed
qed

subsection \<open>The invariant of the extracted text\<close>

lemma collapse_runs_fixed:
  "\<forall>c\<in>set t. is_space c \<longrightarrow> c = 0x20 \<Longrightarrow> \<not> sublist [0x20, 0x20] t \<Longrightarrow> collapse_runs t = t"
proof (induction t rule: collapse_runs.induct)
  case 1
  show ?case by simp
next
  case (2 c cs)
  have sub: "\<not> sublist [0x20, 0x20] cs"
    using "2.prems"(2) by (simp add: sublist_Cons_right)
  show ?case
  proof (cases "is_space c")
    case False
    with 2 sub show ?thesis by simp
  next
    case True
    with "2.prems"(1) have c: "c = 0x20" by simp
    have d: "dropWhile is_space cs = cs"
    proof (cases cs)
      case Nil
      then show ?thesis by simp
    next
      case (Cons x xs)
      with "2.prems"(2) c have "x \<noteq> 0x20"
        by (auto simp: sublist_Cons_right)
      with "2.prems"(1) Cons have "\<not> is_space x" by auto
      with Cons show ?thesis by simp
    qed
    have "\<forall>x\<in>set cs. is_space x \<longrightarrow> x = 0x20"
      using "2.prems"(1) by simp
    then have "collapse_runs cs = cs"
      using "2.IH"(1) [OF True, unfolded d] sub by blast
    moreover have "collapse_runs (c # cs) = 0x20 # collapse_runs (dropWhile is_space cs)"
      using True by simp
    ultimately show ?thesis
      unfolding d c by simp
  qed
qed

lemma is_extracted_text_join:
  assumes "\<forall>w\<in>set ws. word_ok w"
  shows "is_extracted_text (py_join [0x20] ws)"
proof -
  let ?t = "py_join [0x20] ws"
  have "\<forall>c\<in>set ?t. is_space c \<longrightarrow> c = 0x20"
    using assms py_join_chars [of _ ws] by (auto simp: word_ok_def)
  moreover have "\<not> sublist [0x20, 0x20] ?t"
    using assms by (rule py_join_no_double)
  moreover have "?t \<noteq> [] \<longrightarrow> \<not> is_space (hd ?t) \<and> \<not> is_space (last ?t)"
  proof
    assume "?t \<noteq> []"
    then have ws: "ws \<noteq> []" by auto
    then have "word_ok (hd ws)" "word_ok (last ws)" using assms by simp_all
    then show "\<not> is_space (hd ?t) \<and> \<not> is_space (last ?t)"
      using assms ws by (simp add: py_join_hd py_join_last word_ok_ends)
  qed
  ultimately show ?thesis
    using is_space_32 by (auto simp: is_extracted_text_def)
qed

lemma is_extracted_text_ends:
  "is_extracted_text t \<Longrightarrow> t = [] \<or> (\<not> is_space (hd t) \<and> \<not> is_space (last t))"
  by (cases t) (auto simp: is_extracted_text_def)

lemma single_line_text_spec: "single_line_text s = normalize_spec s"
  by (simp add: single_line_text_def normalize_spec_eq)

lemma single_line_text_inv: "is_extracted_text (single_line_text s)"
  by (simp add: single_line_text_def is_extracted_text_join py_split_words)

lemma single_line_text_fallback_eq: "single_line_text_fallback s = single_line_text s"
  using is_extracted_text_ends [OF single_line_text_inv [of s]]
  by (simp add: single_line_text_fallback_def single_line_text_def py_strip_keep)

lemma single_line_text_idem: "single_line_text (single_line_text s) = single_line_text s"
  by (simp add: single_line_text_def py_split_join py_split_words)

lemma single_line_text_fixed:
  assumes "is_extracted_text t"
  shows "single_line_text t = t"
proof -
  have "py_strip t = t"
    using is_extracted_text_ends [OF assms] by (rule py_strip_keep)
  moreover have "collapse_runs t = t"
    using assms by (intro collapse_runs_fixed) (simp_all add: is_extracted_text_def)
  ultimately show ?thesis
    by (simp add: single_line_text_spec normalize_spec_def)
qed

section \<open>Properties of the extraction and of the roadmap client\<close>

lemma py_str_int_404: "py_str_int 404 = ascii ''404''"
  by (simp add: py_str_int_def digits.simps ascii_def)

lemma extract_pages_raises:
  "extract_pages acc (map Returns texts @ Raises e # pages) = Raises e"
  by (induction texts arbitrary: acc) simp_all

lemma extract_pages_returns:
  "extract_pages acc (map Returns texts) = Returns (acc @ concat texts)"
  by (induction texts arbitrary: acc) simp_all

lemma fallback_extract_text_inv: "is_extracted_text (fst (fallback_extract_text env ui))"
proof -
  have "is_extracted_text []"
    by (simp add: is_extracted_text_def)
  then show ?thesis
    by (simp add: fallback_extract_text_def fallback_try_def single_line_text_fallback_eq
        single_line_text_inv split: outcome.split)
qed

lemma extract_text_non_200:
  assumes "rapidapi_key env = Some key" and "ocr_post env = Returns r" and "status_code r \<noteq> 200"
  shows "extract_text_from_pdf env ui =
           (Inr (fst (fallback_extract_text env ui)), snd (fallback_extract_text env ui))"
  using assms by (simp add: extract_text_from_pdf_def ocr_try_def split: prod.split)

lemma extract_text_post_raises:
  assumes "rapidapi_key env = Some key" and "ocr_post env = Raises e"
  shows "extract_text_from_pdf env ui =
           (Inr (fst (fallback_extract_text env
                        (ui @ [StWarning (ascii ''Using fallback PDF extraction method'')]))),
            snd (fallback_extract_text env
                        (ui @ [StWarning (ascii ''Using fallback PDF extraction method'')])))"
  using assms by (simp add: extract_text_from_pdf_def ocr_try_def split: prod.split)

lemma extract_text_body_raises:
  assumes "rapidapi_key env = Some key" and "ocr_post env = Returns r" and "status_code r = 200"
    and "json r = Raises e \<or> json r = Returns JsonOther \<or>
         json r = Returns (JsonObject (Some TextOther))"
  shows "extract_text_from_pdf env ui =
           (Inr (fst (fallback_extract_text env
                        (ui @ [StWarning (ascii ''Using fallback PDF extraction method'')]))),
            snd (fallback_extract_text env
                        (ui @ [StWarning (ascii ''Using fallback PDF extraction method'')])))"
  using assms by (auto simp: extract_text_from_pdf_def ocr_try_def split: prod.split)

lemma fallback_extract_text_inv_pair:
  "fallback_extract_text env ui = (t, ui') \<Longrightarrow> is_extracted_text t"
  using fallback_extract_text_inv [of env ui] by simp

lemma ocr_try_inv: "ocr_try env ui = Returns (t, ui') \<Longrightarrow> is_extracted_text t"
  unfolding ocr_try_def
  by (auto split: outcome.splits if_splits ocr_json.splits option.splits json_text.splits
      simp: single_line_text_inv dest: fallback_extract_text_inv_pair)

lemma extract_text_from_pdf_total:
  assumes "rapidapi_key env = Some key"
  shows "\<exists>t ui'. extract_text_from_pdf env ui = (Inr t, ui') \<and> is_extracted_text t"
proof (cases "ocr_try env ui")
  case (Raises e)
  then show ?thesis
    using assms fallback_extract_text_inv
      [of env "ui @ [StWarning (ascii ''Using fallback PDF extraction method'')]"]
    by (auto simp: extract_text_from_pdf_def split: prod.split)
next
  case (Returns p)
  then show ?thesis
    using assms ocr_try_inv [of env ui "fst p" "snd p"]
    by (auto simp: extract_text_from_pdf_def split: prod.split)
qed

section \<open>Properties of the report\<close>

lemma questionnaire_loop_eq:
  "questionnaire_loop acc lines =
     acc @ map list_item (filter (\<lambda>x. x \<noteq> []) (map py_strip lines))"
  by (induction lines arbitrary: acc) simp_all

lemma noc_loop_eq:
  "noc_loop acc nocs = acc @ map (\<lambda>noc. list_item (py_strip noc)) nocs"
  by (induction nocs arbitrary: acc) simp_all

lemma markdown_content_eq:
  "markdown_content data =
     [title_heading, questionnaire_heading] @
     map list_item (filter (\<lambda>x. x \<noteq> [])
       (map py_strip (py_split_sep (dict_get (questionnaire data) []) delimiter_hd delimiter_tl))) @
     [job_roles_heading, text_line (dict_get (job_roles data) []), noc_codes_heading] @
     map (\<lambda>noc. list_item (py_strip noc)) (dict_get (noc_codes data) []) @
     [crs_score_heading, text_line (dict_get (crs_score data) []),
      roadmap_heading, text_line (dict_get (roadmap data) [])]"
  by (simp add: markdown_content_def Let_def questionnaire_loop_eq noc_loop_eq)


lemma py_split_sep_not_Nil: "py_split_sep s d ds \<noteq> []"
  by (induction s d ds rule: py_split_sep.induct) (auto split: list.split)

lemma not_sublist_Cons: "\<not> sublist xs (c # f) \<Longrightarrow> \<not> sublist xs f"
  by (simp add: sublist_Cons_right)

lemma py_split_sep_fragment:
  "\<not> sublist delimiter f \<Longrightarrow>
   py_split_sep (f @ delimiter @ rest) delimiter_hd delimiter_tl =
     f # py_split_sep rest delimiter_hd delimiter_tl"
proof (induction f)
  case Nil
  show ?case by (simp add: delimiter_def delimiter_tl_def)
next
  case (Cons c f)
  have f: "\<not> sublist delimiter f"
    using Cons.prems by (rule not_sublist_Cons)
  have "\<not> prefix delimiter (c # f)"
    using Cons.prems by (simp add: sublist_Cons_right)
  then have "\<not> (c = delimiter_hd \<and> prefix delimiter_tl (f @ delimiter @ rest))"
    by (cases f) (auto simp: delimiter_def delimiter_tl_def delimiter_hd_def)
  then show ?case
    using Cons.IH [OF f] by simp
qed

lemma py_split_sep_last:
  "\<not> sublist delimiter f \<Longrightarrow> py_split_sep f delimiter_hd delimiter_tl = [f]"
proof (induction f)
  case Nil
  show ?case by simp
next
  case (Cons c f)
  have f: "\<not> sublist delimiter f"
    using Cons.prems by (rule not_sublist_Cons)
  have "\<not> prefix delimiter (c # f)"
    using Cons.prems by (simp add: sublist_Cons_right)
  then have "\<not> (c = delimiter_hd \<and> prefix delimiter_tl f)"
    by (simp add: delimiter_def)
  then show ?case
    using Cons.IH [OF f] by simp
qed

lemma py_strip_decomp:
  "f = takeWhile is_space f @ py_strip f @ rev (takeWhile is_space (rev (dropWhile is_space f)))"
proof -
  have "dropWhile is_space f =
          rev (takeWhile is_space (rev (dropWhile is_space f)) @
               dropWhile is_space (rev (dropWhile is_space f)))"
    by simp
  also have "\<dots> = py_strip f @ rev (takeWhile is_space (rev (dropWhile is_space f)))"
    unfolding py_strip_def rev_append ..
  finally have "takeWhile is_space f @ dropWhile is_space f =
      takeWhile is_space f @ py_strip f @ rev (takeWhile is_space (rev (dropWhile is_space f)))"
    by simp
  then show ?thesis by simp
qed

lemma py_strip_ends:
  assumes "py_strip f \<noteq> []"
  shows "\<not> is_space (hd (py_strip f)) \<and> \<not> is_space (last (py_strip f))"
proof -
  let ?l = "dropWhile is_space f"
  let ?r = "dropWhile is_space (rev ?l)"
  have r: "?r \<noteq> []" using assms by (simp add: py_strip_def)
  have l: "?l \<noteq> []"
  proof
    assume e: "?l = []"
    show False using r unfolding e by simp
  qed
  have "\<not> is_space (hd ?r)" using r by (rule hd_dropWhile)
  then have last: "\<not> is_space (last (py_strip f))"
    using r by (simp add: py_strip_def last_rev)
  have "\<not> is_space (hd ?l)" using l by (rule hd_dropWhile)
  moreover have "hd (py_strip f) = hd ?l"
  proof -
    have "?l = py_strip f @ rev (takeWhile is_space (rev ?l))"
      using py_strip_decomp [of f] by (metis same_append_eq takeWhile_dropWhile_id)
    then show ?thesis using assms by (metis hd_append2)
  qed
  ultimately show ?thesis using last by simp
qed

lemma py_join_sublist:
  "sublist (x @ sep @ y) (py_join sep (pre @ x # y # post))"
proof (induction pre)
  case Nil
  show ?case
    by (cases post) (simp_all add: sublist_def, metis append.assoc append_Nil)
next
  case (Cons p pre)
  have "py_join sep ((p # pre) @ x # y # post) = (p @ sep) @ py_join sep (pre @ x # y # post)"
    by (cases pre) simp_all
  then show ?case
    using Cons.IH by (metis sublist_append_leftI sublist_order.order.trans)
qed

lemma dict_get_simps [simp]: "dict_get None d = d" "dict_get (Some x) d = x"
  by (simp_all add: dict_get_def)

lemma py_strip_empty [simp]: "py_strip [] = []"
  by (simp add: py_strip_def)

lemma py_strip_surrounding:
  "\<exists>l r. f = l @ py_strip f @ r \<and> (\<forall>c\<in>set l. is_space c) \<and> (\<forall>c\<in>set r. is_space c)"
proof (intro exI conjI)
  show "f = takeWhile is_space f @ py_strip f @
              rev (takeWhile is_space (rev (dropWhile is_space f)))"
    by (rule py_strip_decomp)
  show "\<forall>c\<in>set (takeWhile is_space f). is_space c"
    by (auto dest: set_takeWhileD)
  show "\<forall>c\<in>set (rev (takeWhile is_space (rev (dropWhile is_space f)))). is_space c"
    by (auto dest: set_takeWhileD)
qed

lemma py_split_sep_three:
  assumes "\<not> sublist delimiter f1" "\<not> sublist delimiter f2" "\<not> sublist delimiter f3"
  shows "py_split_sep (f1 @ delimiter @ f2 @ delimiter @ f3) delimiter_hd delimiter_tl = [f1, f2, f3]"
  using assms by (simp add: py_split_sep_fragment py_split_sep_last)

lemma list_item_eq_iff [simp]: "list_item x = list_item y \<longleftrightarrow> x = y"
  by (simp add: list_item_def)

subsection \<open>The report in literal form\<close>

lemma py_join_snoc: "py_join sep (xs @ [y]) = concat (map (\<lambda>x. x @ sep) xs) @ y"
proof (induction xs)
  case Nil
  show ?case by simp
next
  case (Cons x xs)
  then show ?case by (cases xs) simp_all
qed

lemma markdown_content_literal:
  "markdown_content data =
     [ascii ''# Immigration Profile Report'' @ [0x0A], ascii ''## 1. Questionnaire and Response:'' @ [0x0A]] @
     map (\<lambda>x. ascii ''- '' @ x @ [0x0A])
       (filter (\<lambda>x. x \<noteq> []) (map py_strip (py_split_sep (case questionnaire data of None \<Rightarrow> [] | Some v \<Rightarrow> v) 0xE2 [0x2014]))) @
     [ascii ''## 2. Job Roles Based on Education and Work Experience:'' @ [0x0A],
      (case job_roles data of None \<Rightarrow> [] | Some v \<Rightarrow> v) @ [0x0A],
      ascii ''## 3. NOC Codes:'' @ [0x0A]] @
     map (\<lambda>noc. ascii ''- '' @ py_strip noc @ [0x0A])
       (case noc_codes data of None \<Rightarrow> [] | Some v \<Rightarrow> v) @
     [ascii ''## 4. CRS Score Breakdown:'' @ [0x0A],
      (case crs_score data of None \<Rightarrow> [] | Some v \<Rightarrow> v) @ [0x0A],
      ascii ''## 5. Roadmap for Canada Immigration:'' @ [0x0A],
      (case roadmap data of None \<Rightarrow> [] | Some v \<Rightarrow> v) @ [0x0A]]"
  by (simp add: markdown_content_eq dict_get_def delimiter_hd_def delimiter_tl_def list_item_def
      text_line_def title_heading_def questionnaire_heading_def job_roles_heading_def
      noc_codes_heading_def crs_score_heading_def roadmap_heading_def)

lemma convert_dict_to_markdown_literal:
  "convert_dict_to_markdown data =
     ascii ''# Immigration Profile Report'' @ [0x0A, 0x0A] @
     ascii ''## 1. Questionnaire and Response:'' @ [0x0A, 0x0A] @
     concat (map (\<lambda>x. ascii ''- '' @ x @ [0x0A, 0x0A])
       (filter (\<lambda>x. x \<noteq> []) (map py_strip (py_split_sep (case questionnaire data of None \<Rightarrow> [] | Some v \<Rightarrow> v) 0xE2 [0x2014])))) @
     ascii ''## 2. Job Roles Based on Education and Work Experience:'' @ [0x0A, 0x0A] @
     (case job_roles data of None \<Rightarrow> [] | Some v \<Rightarrow> v) @ [0x0A, 0x0A] @
     ascii ''## 3. NOC Codes:'' @ [0x0A, 0x0A] @
     concat (map (\<lambda>noc. ascii ''- '' @ py_strip noc @ [0x0A, 0x0A])
       (case noc_codes data of None \<Rightarrow> [] | Some v \<Rightarrow> v)) @
     ascii ''## 4. CRS Score Breakdown:'' @ [0x0A, 0x0A] @
     (case crs_score data of None \<Rightarrow> [] | Some v \<Rightarrow> v) @ [0x0A, 0x0A] @
     ascii ''## 5. Roadmap for Canada Immigration:'' @ [0x0A, 0x0A] @
     (case roadmap data of None \<Rightarrow> [] | Some v \<Rightarrow> v) @ [0x0A]"
proof -
  let ?pre = "[ascii ''# Immigration Profile Report'' @ [0x0A], ascii ''## 1. Questionnaire and Response:'' @ [0x0A]] @
     map (\<lambda>x. ascii ''- '' @ x @ [0x0A])
       (filter (\<lambda>x. x \<noteq> []) (map py_strip (py_split_sep (case questionnaire data of None \<Rightarrow> [] | Some v \<Rightarrow> v) 0xE2 [0x2014]))) @
     [ascii ''## 2. Job Roles Based on Education and Work Experience:'' @ [0x0A],
      (case job_roles data of None \<Rightarrow> [] | Some v \<Rightarrow> v) @ [0x0A],
      ascii ''## 3. NOC Codes:'' @ [0x0A]] @
     map (\<lambda>noc. ascii ''- '' @ py_strip noc @ [0x0A])
       (case noc_codes data of None \<Rightarrow> [] | Some v \<Rightarrow> v) @
     [ascii ''## 4. CRS Score Breakdown:'' @ [0x0A],
      (case crs_score data of None \<Rightarrow> [] | Some v \<Rightarrow> v) @ [0x0A],
      ascii ''## 5. Roadmap for Canada Immigration:'' @ [0x0A]]"
  have "markdown_content data = ?pre @ [(case roadmap data of None \<Rightarrow> [] | Some v \<Rightarrow> v) @ [0x0A]]"
    by (simp add: markdown_content_literal)
  then have "convert_dict_to_markdown data =
      concat (map (\<lambda>x. x @ [0x0A]) ?pre) @ (case roadmap data of None \<Rightarrow> [] | Some v \<Rightarrow> v) @ [0x0A]"
    unfolding convert_dict_to_markdown_def by (simp only: py_join_snoc)
  then show ?thesis
    by (simp add: comp_def)
qed

section \<open>Claims about the normalisation\<close>

text \<open>
  Claim C1. For every input string, the normalisation of either extraction function
  yields the string that the specification describes: whitespace at both ends removed,
  every run of whitespace in between replaced by one space. In the result the space is
  the only whitespace character, so there is no newline, carriage return or tab and the
  text is one line; no two spaces are adjacent; and a non-empty result neither starts
  nor ends with whitespace.
\<close>

theorem single_line_text_normalizes:
  "single_line_text s = normalize_spec s \<and>
   single_line_text_fallback s = normalize_spec s \<and>
   (\<forall>c\<in>set (single_line_text s). is_space c \<longrightarrow> c = 0x20) \<and>
   0x0A \<notin> set (single_line_text s) \<and> 0x0D \<notin> set (single_line_text s) \<and>
   0x09 \<notin> set (single_line_text s) \<and>
   \<not> sublist [0x20, 0x20] (single_line_text s) \<and>
   (single_line_text s \<noteq> [] \<longrightarrow>
      \<not> is_space (hd (single_line_text s)) \<and> \<not> is_space (last (single_line_text s)))"
proof -
  have inv: "is_extracted_text (single_line_text s)"
    by (rule single_line_text_inv)
  then have chars: "\<forall>c\<in>set (single_line_text s). is_space c \<longrightarrow> c = 0x20"
    by (simp add: is_extracted_text_def)
  have "is_space 0x0A" "is_space 0x0D" "is_space 0x09"
    by (simp_all add: is_space_def)
  with chars have "0x0A \<notin> set (single_line_text s)" "0x0D \<notin> set (single_line_text s)"
    "0x09 \<notin> set (single_line_text s)"
    by fastforce+
  moreover have "\<not> sublist [0x20, 0x20] (single_line_text s)"
    using inv by (simp add: is_extracted_text_def)
  moreover have "single_line_text s \<noteq> [] \<longrightarrow>
      \<not> is_space (hd (single_line_text s)) \<and> \<not> is_space (last (single_line_text s))"
    using is_extracted_text_ends [OF inv] by blast
  ultimately show ?thesis
    using chars by (simp add: single_line_text_spec single_line_text_fallback_eq)
qed

theorem single_line_text_normalizes_witness:
  "single_line_text [0x20, 0x41, 0x0A, 0x09, 0x42, 0x20, 0x20, 0x2028, 0x43, 0x0D] =
     [0x41, 0x20, 0x42, 0x20, 0x43] \<and>
   single_line_text_fallback [0x20, 0x41, 0x0A, 0x09, 0x42, 0x20, 0x20, 0x2028, 0x43, 0x0D] =
     [0x41, 0x20, 0x42, 0x20, 0x43] \<and>
   normalize_spec [0x20, 0x41, 0x0A, 0x09, 0x42, 0x20, 0x20, 0x2028, 0x43, 0x0D] =
     [0x41, 0x20, 0x42, 0x20, 0x43] \<and>
   0x20 \<in> set (single_line_text [0x20, 0x41, 0x0A, 0x09, 0x42, 0x20, 0x20, 0x2028, 0x43, 0x0D]) \<and>
   is_space 0x20 \<and>
   single_line_text [0x20, 0x41, 0x0A, 0x09, 0x42, 0x20, 0x20, 0x2028, 0x43, 0x0D] \<noteq> [] \<and>
   \<not> is_space (hd (single_line_text [0x20, 0x41, 0x0A, 0x09, 0x42, 0x20, 0x20, 0x2028, 0x43, 0x0D])) \<and>
   \<not> is_space (last (single_line_text [0x20, 0x41, 0x0A, 0x09, 0x42, 0x20, 0x20, 0x2028, 0x43, 0x0D]))"
proof -
  let ?s = "[0x20, 0x41, 0x0A, 0x09, 0x42, 0x20, 0x20, 0x2028, 0x43, 0x0D]"
  note t = single_line_text_normalizes [of ?s]
  have v: "single_line_text ?s = [0x41, 0x20, 0x42, 0x20, 0x43]"
    by (simp add: single_line_text_def py_split_word is_space_def)
  from t have n: "normalize_spec ?s = single_line_text ?s"
    by simp
  from t have f: "single_line_text_fallback ?s = single_line_text ?s"
    by simp
  show ?thesis
    unfolding f n v by (simp add: is_space_def)
qed

text \<open>
  Claim C6. Normalising twice is normalising once, for each of the two normalisations
  and for either one after the other; and a string that already satisfies the
  invariant of the extracted text is left as it is.
\<close>

theorem single_line_text_idempotent:
  "single_line_text (single_line_text s) = single_line_text s \<and>
   single_line_text_fallback (single_line_text_fallback s) = single_line_text_fallback s \<and>
   single_line_text (single_line_text_fallback s) = single_line_text_fallback s \<and>
   single_line_text_fallback (single_line_text s) = single_line_text s \<and>
   (is_extracted_text s \<longrightarrow> single_line_text s = s \<and> single_line_text_fallback s = s)"
  by (simp add: single_line_text_fallback_eq single_line_text_idem single_line_text_fixed)

theorem single_line_text_idempotent_witness:
  "is_extracted_text [0x41, 0x20, 0x42, 0x20, 0x43] \<and>
   single_line_text [0x41, 0x20, 0x42, 0x20, 0x43] = [0x41, 0x20, 0x42, 0x20, 0x43] \<and>
   single_line_text_fallback [0x41, 0x20, 0x42, 0x20, 0x43] = [0x41, 0x20, 0x42, 0x20, 0x43]"
proof -
  have h: "is_extracted_text [0x41, 0x20, 0x42, 0x20, 0x43]"
    by (simp add: is_extracted_text_def is_space_def sublist_Cons_right)
  show ?thesis
    using h single_line_text_idempotent [of "[0x41, 0x20, 0x42, 0x20, 0x43]"] by simp
qed

section \<open>Claims about the extraction\<close>

text \<open>
  Claim C4, evaluated where the code departs from it. The OCR service answers with
  status 500 and the file has one page with the text \<^verbatim>\<open>A B  C\<close>: the function returns the
  normalised text of the local extraction, and the page shows no message at all. When
  the request raises instead, the same text comes back and the warning is shown. So
  the fallback is used in both runs, but only the second one warns. The rest of the
  claim holds in general, by the lemmas \<open>extract_text_non_200\<close>,
  \<open>extract_text_post_raises\<close>, \<open>extract_text_body_raises\<close> and
  \<open>extract_text_from_pdf_total\<close>.
\<close>

theorem extract_text_non_200_silent:
  "extract_text_from_pdf
     \<lparr>rapidapi_key = Some (ascii ''k''),
      ocr_post = Returns \<lparr>status_code = 500, json = Raises []\<rparr>,
      pdf_pages = Returns [Returns (ascii ''A B  C'')]\<rparr> [] = (Inr (ascii ''A B C''), []) \<and>
   extract_text_from_pdf
     \<lparr>rapidapi_key = Some (ascii ''k''),
      ocr_post = Raises (ascii ''timed out''),
      pdf_pages = Returns [Returns (ascii ''A B  C'')]\<rparr> [] =
     (Inr (ascii ''A B C''), [StWarning (ascii ''Using fallback PDF extraction method'')])"
  by (simp add: extract_text_from_pdf_def ocr_try_def fallback_extract_text_def fallback_try_def
      single_line_text_fallback_def py_split_word py_strip_def is_space_def ascii_def)

text \<open>
  Claim C5. When the local parsing raises, be it the import, the reader, or the
  extraction of some page after any number of pages that went well, the function
  shows the error with the exception's message and returns the empty string.
\<close>

theorem fallback_extract_text_on_exception:
  "(pdf_pages env = Raises e \<longrightarrow>
      fallback_extract_text env ui =
        ([], ui @ [StError (ascii ''Error in text extraction: '' @ e)])) \<and>
   (pdf_pages env = Returns (map Returns texts @ Raises e # pages) \<longrightarrow>
      fallback_extract_text env ui =
        ([], ui @ [StError (ascii ''Error in text extraction: '' @ e)]))"
  by (simp add: fallback_extract_text_def fallback_try_def extract_pages_raises)

theorem fallback_extract_text_on_exception_witness:
  "fallback_extract_text
     \<lparr>rapidapi_key = None, ocr_post = Raises [], pdf_pages = Raises (ascii ''EOF marker not found'')\<rparr> []
     = ([], [StError (ascii ''Error in text extraction: EOF marker not found'')]) \<and>
   fallback_extract_text
     \<lparr>rapidapi_key = None, ocr_post = Raises [],
      pdf_pages = Returns [Returns (ascii ''A B''), Raises (ascii ''bad page''), Returns (ascii ''C'')]\<rparr> []
     = ([], [StError (ascii ''Error in text extraction: bad page'')])"
  using
    fallback_extract_text_on_exception [where
      env = "\<lparr>rapidapi_key = None, ocr_post = Raises [],
               pdf_pages = Raises (ascii ''EOF marker not found'')\<rparr>"
      and e = "ascii ''EOF marker not found''" and ui = "[]"]
    fallback_extract_text_on_exception [where
      env = "\<lparr>rapidapi_key = None, ocr_post = Raises [],
               pdf_pages = Returns [Returns (ascii ''A B''), Raises (ascii ''bad page''),
                                    Returns (ascii ''C'')]\<rparr>"
      and e = "ascii ''bad page''" and texts = "[ascii ''A B'']"
      and pages = "[Returns (ascii ''C'')]" and ui = "[]"]
  by (simp add: ascii_def)

text \<open>
  Claim C9. With the secret configured, a response of status 200 whose JSON body is an
  object without the key \<^verbatim>\<open>text\<close> makes the function return the empty string and show
  nothing, whatever the local parsing of the file would have done: the fallback is not
  called.
\<close>

theorem extract_text_missing_text_field:
  "rapidapi_key env = Some key \<Longrightarrow> ocr_post env = Returns r \<Longrightarrow> status_code r = 200 \<Longrightarrow>
   json r = Returns (JsonObject None) \<Longrightarrow>
   extract_text_from_pdf env ui = (Inr [], ui) \<and>
   (\<forall>pages. extract_text_from_pdf (env\<lparr>pdf_pages := pages\<rparr>) ui = (Inr [], ui))"
  by (simp add: extract_text_from_pdf_def ocr_try_def single_line_text_def)

theorem extract_text_missing_text_field_witness:
  "extract_text_from_pdf
     \<lparr>rapidapi_key = Some (ascii ''k''),
      ocr_post = Returns \<lparr>status_code = 200, json = Returns (JsonObject None)\<rparr>,
      pdf_pages = Raises (ascii ''EOF marker not found'')\<rparr> [] = (Inr [], []) \<and>
   fallback_extract_text
     \<lparr>rapidapi_key = Some (ascii ''k''),
      ocr_post = Returns \<lparr>status_code = 200, json = Returns (JsonObject None)\<rparr>,
      pdf_pages = Raises (ascii ''EOF marker not found'')\<rparr> [] \<noteq> ([], [])"
  using extract_text_missing_text_field [where
     env = "\<lparr>rapidapi_key = Some (ascii ''k''),
              ocr_post = Returns \<lparr>status_code = 200, json = Returns (JsonObject None)\<rparr>,
              pdf_pages = Raises (ascii ''EOF marker not found'')\<rparr>"
     and key = "ascii ''k''" and ui = "[]"
     and r = "\<lparr>status_code = 200, json = Returns (JsonObject None)\<rparr>"]
  by (simp add: fallback_extract_text_def fallback_try_def)

section \<open>Claims about the roadmap client\<close>

text \<open>
  Claim C3. On status 200 the function returns the parsed body and shows nothing; on
  status 404 it shows the "data not found" error and returns \<^verbatim>\<open>None\<close>; on any other
  status it shows the error with the status code in decimal and returns \<^verbatim>\<open>None\<close>; when
  the request raises, or the body of a 200 response does not parse, it shows the error
  with the exception's message and returns \<^verbatim>\<open>None\<close>.
\<close>

theorem call_visa_roadmap_api_status:
  "(post s = Returns r \<and> status_code r = 200 \<and> json r = Returns body \<longrightarrow>
      call_visa_roadmap_api post s ui = (Some body, ui)) \<and>
   (post s = Returns r \<and> status_code r = 404 \<longrightarrow>
      call_visa_roadmap_api post s ui =
        (None, ui @ [StError (ascii ''API Error: Data Not Found (404)'')])) \<and>
   (post s = Returns r \<and> status_code r \<noteq> 200 \<and> status_code r \<noteq> 404 \<longrightarrow>
      call_visa_roadmap_api post s ui =
        (None, ui @ [StError (ascii ''API Error: '' @ py_str_int (status_code r))])) \<and>
   (post s = Raises e \<longrightarrow>
      call_visa_roadmap_api post s ui = (None, ui @ [StError (ascii ''API Error: '' @ e)])) \<and>
   (post s = Returns r \<and> status_code r = 200 \<and> json r = Raises e \<longrightarrow>
      call_visa_roadmap_api post s ui = (None, ui @ [StError (ascii ''API Error: '' @ e)]))"
  by (simp add: call_visa_roadmap_api_def py_str_int_404) (simp add: ascii_def)

theorem call_visa_roadmap_api_status_witness:
  "call_visa_roadmap_api (\<lambda>t. Returns \<lparr>status_code = 200, json = Returns t\<rparr>) (ascii ''A B C'') []
     = (Some (ascii ''A B C''), []) \<and>
   call_visa_roadmap_api (\<lambda>t. Returns \<lparr>status_code = 404, json = Returns t\<rparr>) (ascii ''A B C'') []
     = (None, [StError (ascii ''API Error: Data Not Found (404)'')]) \<and>
   call_visa_roadmap_api (\<lambda>t. Returns \<lparr>status_code = 500, json = Returns t\<rparr>) (ascii ''A B C'') []
     = (None, [StError (ascii ''API Error: 500'')]) \<and>
   call_visa_roadmap_api (\<lambda>t. Raises (ascii ''timed out'') :: pystr response outcome) (ascii ''A B C'') []
     = (None, [StError (ascii ''API Error: timed out'')]) \<and>
   call_visa_roadmap_api (\<lambda>t. Returns \<lparr>status_code = 200, json = Raises (ascii ''bad JSON'') :: pystr outcome\<rparr>)
       (ascii ''A B C'') []
     = (None, [StError (ascii ''API Error: bad JSON'')])"
  using
    call_visa_roadmap_api_status [where
      post = "\<lambda>t. Returns \<lparr>status_code = 200, json = Returns t\<rparr>"
      and s = "ascii ''A B C''" and ui = "[]"
      and r = "\<lparr>status_code = 200, json = Returns (ascii ''A B C'')\<rparr>"
      and body = "ascii ''A B C''"]
    call_visa_roadmap_api_status [where
      post = "\<lambda>t. Returns \<lparr>status_code = 404, json = Returns t\<rparr>"
      and s = "ascii ''A B C''" and ui = "[]"
      and r = "\<lparr>status_code = 404, json = Returns (ascii ''A B C'')\<rparr>"]
    call_visa_roadmap_api_status [where
      post = "\<lambda>t. Returns \<lparr>status_code = 500, json = Returns t\<rparr>"
      and s = "ascii ''A B C''" and ui = "[]"
      and r = "\<lparr>status_code = 500, json = Returns (ascii ''A B C'')\<rparr>"]
    call_visa_roadmap_api_status [where
      post = "\<lambda>t. Raises (ascii ''timed out'') :: pystr response outcome"
      and s = "ascii ''A B C''" and ui = "[]" and e = "ascii ''timed out''"]
    call_visa_roadmap_api_status [where
      post = "\<lambda>t. Returns \<lparr>status_code = 200, json = Raises (ascii ''bad JSON'') :: pystr outcome\<rparr>"
      and s = "ascii ''A B C''" and ui = "[]"
      and r = "\<lparr>status_code = 200, json = Raises (ascii ''bad JSON'')\<rparr>"
      and e = "ascii ''bad JSON''"]
  by (simp add: py_str_int_def digits.simps ascii_def)

section \<open>Claims about the report\<close>

text \<open>
  Claim C2. For every dictionary, the blocks of the report are the title
  \<^verbatim>\<open># Immigration Profile Report\<close>, the heading \<^verbatim>\<open>## 1. Questionnaire and Response:\<close> with
  its list items, the heading \<^verbatim>\<open>## 2. Job Roles Based on Education and Work Experience:\<close>
  with its text, the heading \<^verbatim>\<open>## 3. NOC Codes:\<close> with its list items, the heading
  \<^verbatim>\<open>## 4. CRS Score Breakdown:\<close> with its text and the heading
  \<^verbatim>\<open>## 5. Roadmap for Canada Immigration:\<close> with its text, in this order and each ending
  in a newline; the returned string is these blocks with one more newline between any
  two. An absent key counts as the empty string, or the empty sequence for
  \<^verbatim>\<open>noc_codes\<close>, and is no error: an absent questionnaire gives no list item, and with all
  five keys absent the returned string is the title and the five headings, with the
  empty text under the second, fourth and fifth heading.
\<close>

theorem convert_dict_to_markdown_sections:
  "markdown_content data =
     [ascii ''# Immigration Profile Report'' @ [0x0A], ascii ''## 1. Questionnaire and Response:'' @ [0x0A]] @
     map (\<lambda>x. ascii ''- '' @ x @ [0x0A])
       (filter (\<lambda>x. x \<noteq> []) (map py_strip (py_split_sep (case questionnaire data of None \<Rightarrow> [] | Some v \<Rightarrow> v) 0xE2 [0x2014]))) @
     [ascii ''## 2. Job Roles Based on Education and Work Experience:'' @ [0x0A],
      (case job_roles data of None \<Rightarrow> [] | Some v \<Rightarrow> v) @ [0x0A],
      ascii ''## 3. NOC Codes:'' @ [0x0A]] @
     map (\<lambda>noc. ascii ''- '' @ py_strip noc @ [0x0A])
       (case noc_codes data of None \<Rightarrow> [] | Some v \<Rightarrow> v) @
     [ascii ''## 4. CRS Score Breakdown:'' @ [0x0A],
      (case crs_score data of None \<Rightarrow> [] | Some v \<Rightarrow> v) @ [0x0A],
      ascii ''## 5. Roadmap for Canada Immigration:'' @ [0x0A],
      (case roadmap data of None \<Rightarrow> [] | Some v \<Rightarrow> v) @ [0x0A]] \<and>
   convert_dict_to_markdown data =
     ascii ''# Immigration Profile Report'' @ [0x0A, 0x0A] @
     ascii ''## 1. Questionnaire and Response:'' @ [0x0A, 0x0A] @
     concat (map (\<lambda>x. ascii ''- '' @ x @ [0x0A, 0x0A])
       (filter (\<lambda>x. x \<noteq> []) (map py_strip (py_split_sep (case questionnaire data of None \<Rightarrow> [] | Some v \<Rightarrow> v) 0xE2 [0x2014])))) @
     ascii ''## 2. Job Roles Based on Education and Work Experience:'' @ [0x0A, 0x0A] @
     (case job_roles data of None \<Rightarrow> [] | Some v \<Rightarrow> v) @ [0x0A, 0x0A] @
     ascii ''## 3. NOC Codes:'' @ [0x0A, 0x0A] @
     concat (map (\<lambda>noc. ascii ''- '' @ py_strip noc @ [0x0A, 0x0A])
       (case noc_codes data of None \<Rightarrow> [] | Some v \<Rightarrow> v)) @
     ascii ''## 4. CRS Score Breakdown:'' @ [0x0A, 0x0A] @
     (case crs_score data of None \<Rightarrow> [] | Some v \<Rightarrow> v) @ [0x0A, 0x0A] @
     ascii ''## 5. Roadmap for Canada Immigration:'' @ [0x0A, 0x0A] @
     (case roadmap data of None \<Rightarrow> [] | Some v \<Rightarrow> v) @ [0x0A] \<and>
   (questionnaire data = None \<longrightarrow>
      (filter (\<lambda>x. x \<noteq> []) (map py_strip (py_split_sep (case questionnaire data of None \<Rightarrow> [] | Some v \<Rightarrow> v) 0xE2 [0x2014]))) = []) \<and>
   (questionnaire data = None \<and> job_roles data = None \<and> noc_codes data = None \<and>
    crs_score data = None \<and> roadmap data = None \<longrightarrow>
      convert_dict_to_markdown data =
        ascii ''# Immigration Profile Report'' @ [0x0A, 0x0A] @
        ascii ''## 1. Questionnaire and Response:'' @ [0x0A, 0x0A] @
        ascii ''## 2. Job Roles Based on Education and Work Experience:'' @ [0x0A, 0x0A, 0x0A, 0x0A] @
        ascii ''## 3. NOC Codes:'' @ [0x0A, 0x0A] @
        ascii ''## 4. CRS Score Breakdown:'' @ [0x0A, 0x0A, 0x0A, 0x0A] @
        ascii ''## 5. Roadmap for Canada Immigration:'' @ [0x0A, 0x0A, 0x0A])"
proof -
  have "questionnaire data = None \<longrightarrow>
      (filter (\<lambda>x. x \<noteq> []) (map py_strip (py_split_sep (case questionnaire data of None \<Rightarrow> [] | Some v \<Rightarrow> v) 0xE2 [0x2014]))) = []"
    by simp
  moreover have "questionnaire data = None \<and> job_roles data = None \<and> noc_codes data = None \<and>
    crs_score data = None \<and> roadmap data = None \<longrightarrow>
      convert_dict_to_markdown data =
        ascii ''# Immigration Profile Report'' @ [0x0A, 0x0A] @
        ascii ''## 1. Questionnaire and Response:'' @ [0x0A, 0x0A] @
        ascii ''## 2. Job Roles Based on Education and Work Experience:'' @ [0x0A, 0x0A, 0x0A, 0x0A] @
        ascii ''## 3. NOC Codes:'' @ [0x0A, 0x0A] @
        ascii ''## 4. CRS Score Breakdown:'' @ [0x0A, 0x0A, 0x0A, 0x0A] @
        ascii ''## 5. Roadmap for Canada Immigration:'' @ [0x0A, 0x0A, 0x0A]"
    by (simp add: convert_dict_to_markdown_literal)
  ultimately show ?thesis
    using markdown_content_literal [of data] convert_dict_to_markdown_literal [of data]
    by (intro conjI)
qed

theorem convert_dict_to_markdown_sections_witness:
  "convert_dict_to_markdown
     \<lparr>questionnaire = None,
      job_roles = None, noc_codes = None,
      crs_score = None, roadmap = None\<rparr> =
     [35, 32, 73, 109, 109, 105, 103, 114, 97, 116, 105, 111, 110, 32, 80, 114, 111, 102,
      105, 108, 101, 32, 82, 101, 112, 111, 114, 116, 10, 10, 35, 35, 32, 49, 46, 32, 81,
      117, 101, 115, 116, 105, 111, 110, 110, 97, 105, 114, 101, 32, 97, 110, 100, 32, 82,
      101, 115, 112, 111, 110, 115, 101, 58, 10, 10, 35, 35, 32, 50, 46, 32, 74, 111, 98,
      32, 82, 111, 108, 101, 115, 32, 66, 97, 115, 101, 100, 32, 111, 110, 32, 69, 100,
      117, 99, 97, 116, 105, 111, 110, 32, 97, 110, 100, 32, 87, 111, 114, 107, 32, 69,
      120, 112, 101, 114, 105, 101, 110, 99, 101, 58, 10, 10, 10, 10, 35, 35, 32, 51, 46,
      32, 78, 79, 67, 32, 67, 111, 100, 101, 115, 58, 10, 10, 35, 35, 32, 52, 46, 32, 67,
      82, 83, 32, 83, 99, 111, 114, 101, 32, 66, 114, 101, 97, 107, 100, 111, 119, 110, 58,
      10, 10, 10, 10, 35, 35, 32, 53, 46, 32, 82, 111, 97, 100, 109, 97, 112, 32, 102, 111,
      114, 32, 67, 97, 110, 97, 100, 97, 32, 73, 109, 109, 105, 103, 114, 97, 116, 105,
      111, 110, 58, 10, 10, 10] \<and>
   markdown_content
     \<lparr>questionnaire = None,
      job_roles = Some [69, 110, 103, 105, 110, 101, 101, 114], noc_codes = Some [[49, 50, 51, 52]],
      crs_score = None, roadmap = Some [65, 112, 112, 108, 121]\<rparr> =
     [[35, 32, 73, 109, 109, 105, 103, 114, 97, 116, 105, 111, 110, 32, 80, 114, 111, 102,
       105, 108, 101, 32, 82, 101, 112, 111, 114, 116, 10],
      [35, 35, 32, 49, 46, 32, 81, 117, 101, 115, 116, 105, 111, 110, 110, 97, 105, 114,
       101, 32, 97, 110, 100, 32, 82, 101, 115, 112, 111, 110, 115, 101, 58, 10],
      [35, 35, 32, 50, 46, 32, 74, 111, 98, 32, 82, 111, 108, 101, 115, 32, 66, 97, 115,
       101, 100, 32, 111, 110, 32, 69, 100, 117, 99, 97, 116, 105, 111, 110, 32, 97, 110,
       100, 32, 87, 111, 114, 107, 32, 69, 120, 112, 101, 114, 105, 101, 110, 99, 101, 58,
       10],
      [69, 110, 103, 105, 110, 101, 101, 114, 10],
      [35, 35, 32, 51, 46, 32, 78, 79, 67, 32, 67, 111, 100, 101, 115, 58, 10],
      [45, 32, 49, 50, 51, 52, 10],
      [35, 35, 32, 52, 46, 32, 67, 82, 83, 32, 83, 99, 111, 114, 101, 32, 66, 114, 101,
       97, 107, 100, 111, 119, 110, 58, 10],
      [10],
      [35, 35, 32, 53, 46, 32, 82, 111, 97, 100, 109, 97, 112, 32, 102, 111, 114, 32, 67,
       97, 110, 97, 100, 97, 32, 73, 109, 109, 105, 103, 114, 97, 116, 105, 111, 110, 58,
       10],
      [65, 112, 112, 108, 121, 10]] \<and>
   convert_dict_to_markdown
     \<lparr>questionnaire = None,
      job_roles = Some [69, 110, 103, 105, 110, 101, 101, 114], noc_codes = Some [[49, 50, 51, 52]],
      crs_score = None, roadmap = Some [65, 112, 112, 108, 121]\<rparr> =
     [35, 32, 73, 109, 109, 105, 103, 114, 97, 116, 105, 111, 110, 32, 80, 114, 111, 102,
      105, 108, 101, 32, 82, 101, 112, 111, 114, 116, 10, 10, 35, 35, 32, 49, 46, 32, 81,
      117, 101, 115, 116, 105, 111, 110, 110, 97, 105, 114, 101, 32, 97, 110, 100, 32, 82,
      101, 115, 112, 111, 110, 115, 101, 58, 10, 10, 35, 35, 32, 50, 46, 32, 74, 111, 98,
      32, 82, 111, 108, 101, 115, 32, 66, 97, 115, 101, 100, 32, 111, 110, 32, 69, 100,
      117, 99, 97, 116, 105, 111, 110, 32, 97, 110, 100, 32, 87, 111, 114, 107, 32, 69,
      120, 112, 101, 114, 105, 101, 110, 99, 101, 58, 10, 10, 69, 110, 103, 105, 110, 101,
      101, 114, 10, 10, 35, 35, 32, 51, 46, 32, 78, 79, 67, 32, 67, 111, 100, 101, 115, 58,
      10, 10, 45, 32, 49, 50, 51, 52, 10, 10, 35, 35, 32, 52, 46, 32, 67, 82, 83, 32, 83,
      99, 111, 114, 101, 32, 66, 114, 101, 97, 107, 100, 111, 119, 110, 58, 10, 10, 10, 10,
      35, 35, 32, 53, 46, 32, 82, 111, 97, 100, 109, 97, 112, 32, 102, 111, 114, 32, 67,
      97, 110, 97, 100, 97, 32, 73, 109, 109, 105, 103, 114, 97, 116, 105, 111, 110, 58,
      10, 10, 65, 112, 112, 108, 121, 10]"
  using
    convert_dict_to_markdown_sections [where
      data = "\<lparr>questionnaire = None,
      job_roles = None, noc_codes = None,
      crs_score = None, roadmap = None\<rparr>"]
    convert_dict_to_markdown_sections [where
      data = "\<lparr>questionnaire = None,
      job_roles = Some [69, 110, 103, 105, 110, 101, 101, 114], noc_codes = Some [[49, 50, 51, 52]],
      crs_score = None, roadmap = Some [65, 112, 112, 108, 121]\<rparr>"]
  by (simp add: ascii_def py_strip_def is_space_def)

text \<open>
  Claim C7. When \<^verbatim>\<open>noc_codes\<close> is the empty sequence, the block \<^verbatim>\<open>## 3. NOC Codes:\<close> is
  in the report and the block after it is \<^verbatim>\<open>## 4. CRS Score Breakdown:\<close>: the section has
  no list item. In the returned string the line of the first heading is followed by
  one empty line and then by the line of the second.
\<close>

theorem convert_dict_to_markdown_empty_noc_codes:
  "noc_codes data = Some [] \<Longrightarrow>
   markdown_content data =
     [ascii ''# Immigration Profile Report'' @ [0x0A], ascii ''## 1. Questionnaire and Response:'' @ [0x0A]] @
     map (\<lambda>x. ascii ''- '' @ x @ [0x0A])
       (filter (\<lambda>x. x \<noteq> []) (map py_strip (py_split_sep (case questionnaire data of None \<Rightarrow> [] | Some v \<Rightarrow> v) 0xE2 [0x2014]))) @
     [ascii ''## 2. Job Roles Based on Education and Work Experience:'' @ [0x0A],
      (case job_roles data of None \<Rightarrow> [] | Some v \<Rightarrow> v) @ [0x0A],
      ascii ''## 3. NOC Codes:'' @ [0x0A],
      ascii ''## 4. CRS Score Breakdown:'' @ [0x0A],
      (case crs_score data of None \<Rightarrow> [] | Some v \<Rightarrow> v) @ [0x0A],
      ascii ''## 5. Roadmap for Canada Immigration:'' @ [0x0A],
      (case roadmap data of None \<Rightarrow> [] | Some v \<Rightarrow> v) @ [0x0A]] \<and>
   convert_dict_to_markdown data =
     ascii ''# Immigration Profile Report'' @ [0x0A, 0x0A] @
     ascii ''## 1. Questionnaire and Response:'' @ [0x0A, 0x0A] @
     concat (map (\<lambda>x. ascii ''- '' @ x @ [0x0A, 0x0A])
       (filter (\<lambda>x. x \<noteq> []) (map py_strip (py_split_sep (case questionnaire data of None \<Rightarrow> [] | Some v \<Rightarrow> v) 0xE2 [0x2014])))) @
     ascii ''## 2. Job Roles Based on Education and Work Experience:'' @ [0x0A, 0x0A] @
     (case job_roles data of None \<Rightarrow> [] | Some v \<Rightarrow> v) @ [0x0A, 0x0A] @
     ascii ''## 3. NOC Codes:'' @ [0x0A, 0x0A] @
     ascii ''## 4. CRS Score Breakdown:'' @ [0x0A, 0x0A] @
     (case crs_score data of None \<Rightarrow> [] | Some v \<Rightarrow> v) @ [0x0A, 0x0A] @
     ascii ''## 5. Roadmap for Canada Immigration:'' @ [0x0A, 0x0A] @
     (case roadmap data of None \<Rightarrow> [] | Some v \<Rightarrow> v) @ [0x0A] \<and>
   sublist (ascii ''## 3. NOC Codes:'' @ [0x0A, 0x0A] @ ascii ''## 4. CRS Score Breakdown:'' @ [0x0A])
     (convert_dict_to_markdown data)"
proof -
  assume n: "noc_codes data = Some []"
  have m: "markdown_content data =
     [ascii ''# Immigration Profile Report'' @ [0x0A], ascii ''## 1. Questionnaire and Response:'' @ [0x0A]] @
     map (\<lambda>x. ascii ''- '' @ x @ [0x0A])
       (filter (\<lambda>x. x \<noteq> []) (map py_strip (py_split_sep (case questionnaire data of None \<Rightarrow> [] | Some v \<Rightarrow> v) 0xE2 [0x2014]))) @
     [ascii ''## 2. Job Roles Based on Education and Work Experience:'' @ [0x0A],
      (case job_roles data of None \<Rightarrow> [] | Some v \<Rightarrow> v) @ [0x0A],
      ascii ''## 3. NOC Codes:'' @ [0x0A],
      ascii ''## 4. CRS Score Breakdown:'' @ [0x0A],
      (case crs_score data of None \<Rightarrow> [] | Some v \<Rightarrow> v) @ [0x0A],
      ascii ''## 5. Roadmap for Canada Immigration:'' @ [0x0A],
      (case roadmap data of None \<Rightarrow> [] | Some v \<Rightarrow> v) @ [0x0A]]"
    using n by (simp add: markdown_content_literal)
  have c: "convert_dict_to_markdown data =
     ascii ''# Immigration Profile Report'' @ [0x0A, 0x0A] @
     ascii ''## 1. Questionnaire and Response:'' @ [0x0A, 0x0A] @
     concat (map (\<lambda>x. ascii ''- '' @ x @ [0x0A, 0x0A])
       (filter (\<lambda>x. x \<noteq> []) (map py_strip (py_split_sep (case questionnaire data of None \<Rightarrow> [] | Some v \<Rightarrow> v) 0xE2 [0x2014])))) @
     ascii ''## 2. Job Roles Based on Education and Work Experience:'' @ [0x0A, 0x0A] @
     (case job_roles data of None \<Rightarrow> [] | Some v \<Rightarrow> v) @ [0x0A, 0x0A] @
     ascii ''## 3. NOC Codes:'' @ [0x0A, 0x0A] @
     ascii ''## 4. CRS Score Breakdown:'' @ [0x0A, 0x0A] @
     (case crs_score data of None \<Rightarrow> [] | Some v \<Rightarrow> v) @ [0x0A, 0x0A] @
     ascii ''## 5. Roadmap for Canada Immigration:'' @ [0x0A, 0x0A] @
     (case roadmap data of None \<Rightarrow> [] | Some v \<Rightarrow> v) @ [0x0A]"
    using n by (simp add: convert_dict_to_markdown_literal)
  let ?p = "ascii ''# Immigration Profile Report'' @ [0x0A, 0x0A] @
     ascii ''## 1. Questionnaire and Response:'' @ [0x0A, 0x0A] @
     concat (map (\<lambda>x. ascii ''- '' @ x @ [0x0A, 0x0A])
       (filter (\<lambda>x. x \<noteq> []) (map py_strip (py_split_sep (case questionnaire data of None \<Rightarrow> [] | Some v \<Rightarrow> v) 0xE2 [0x2014])))) @
     ascii ''## 2. Job Roles Based on Education and Work Experience:'' @ [0x0A, 0x0A] @
     (case job_roles data of None \<Rightarrow> [] | Some v \<Rightarrow> v) @ [0x0A, 0x0A]"
  let ?s = "[0x0A] @
     (case crs_score data of None \<Rightarrow> [] | Some v \<Rightarrow> v) @ [0x0A, 0x0A] @
     ascii ''## 5. Roadmap for Canada Immigration:'' @ [0x0A, 0x0A] @
     (case roadmap data of None \<Rightarrow> [] | Some v \<Rightarrow> v) @ [0x0A]"
  have "convert_dict_to_markdown data =
      ?p @ (ascii ''## 3. NOC Codes:'' @ [0x0A, 0x0A] @ ascii ''## 4. CRS Score Breakdown:'' @ [0x0A]) @ ?s"
    unfolding c by simp
  then have "sublist (ascii ''## 3. NOC Codes:'' @ [0x0A, 0x0A] @ ascii ''## 4. CRS Score Breakdown:'' @ [0x0A])
     (convert_dict_to_markdown data)"
    by (simp only: sublist_appendI)
  with m c show ?thesis by (intro conjI)
qed

theorem convert_dict_to_markdown_empty_noc_codes_witness:
  "markdown_content
     \<lparr>questionnaire = Some [65, 103, 101, 58, 32, 51, 48],
      job_roles = Some [69, 110, 103, 105, 110, 101, 101, 114], noc_codes = Some [],
      crs_score = Some [52, 53, 48], roadmap = Some [65, 112, 112, 108, 121]\<rparr> =
     [[35, 32, 73, 109, 109, 105, 103, 114, 97, 116, 105, 111, 110, 32, 80, 114, 111, 102,
       105, 108, 101, 32, 82, 101, 112, 111, 114, 116, 10],
      [35, 35, 32, 49, 46, 32, 81, 117, 101, 115, 116, 105, 111, 110, 110, 97, 105, 114,
       101, 32, 97, 110, 100, 32, 82, 101, 115, 112, 111, 110, 115, 101, 58, 10],
      [45, 32, 65, 103, 101, 58, 32, 51, 48, 10],
      [35, 35, 32, 50, 46, 32, 74, 111, 98, 32, 82, 111, 108, 101, 115, 32, 66, 97, 115,
       101, 100, 32, 111, 110, 32, 69, 100, 117, 99, 97, 116, 105, 111, 110, 32, 97, 110,
       100, 32, 87, 111, 114, 107, 32, 69, 120, 112, 101, 114, 105, 101, 110, 99, 101, 58,
       10],
      [69, 110, 103, 105, 110, 101, 101, 114, 10],
      [35, 35, 32, 51, 46, 32, 78, 79, 67, 32, 67, 111, 100, 101, 115, 58, 10],
      [35, 35, 32, 52, 46, 32, 67, 82, 83, 32, 83, 99, 111, 114, 101, 32, 66, 114, 101,
       97, 107, 100, 111, 119, 110, 58, 10],
      [52, 53, 48, 10],
      [35, 35, 32, 53, 46, 32, 82, 111, 97, 100, 109, 97, 112, 32, 102, 111, 114, 32, 67,
       97, 110, 97, 100, 97, 32, 73, 109, 109, 105, 103, 114, 97, 116, 105, 111, 110, 58,
       10],
      [65, 112, 112, 108, 121, 10]] \<and>
   convert_dict_to_markdown
     \<lparr>questionnaire = Some [65, 103, 101, 58, 32, 51, 48],
      job_roles = Some [69, 110, 103, 105, 110, 101, 101, 114], noc_codes = Some [],
      crs_score = Some [52, 53, 48], roadmap = Some [65, 112, 112, 108, 121]\<rparr> =
     [35, 32, 73, 109, 109, 105, 103, 114, 97, 116, 105, 111, 110, 32, 80, 114, 111, 102,
      105, 108, 101, 32, 82, 101, 112, 111, 114, 116, 10, 10, 35, 35, 32, 49, 46, 32, 81,
      117, 101, 115, 116, 105, 111, 110, 110, 97, 105, 114, 101, 32, 97, 110, 100, 32, 82,
      101, 115, 112, 111, 110, 115, 101, 58, 10, 10, 45, 32, 65, 103, 101, 58, 32, 51, 48,
      10, 10, 35, 35, 32, 50, 46, 32, 74, 111, 98, 32, 82, 111, 108, 101, 115, 32, 66, 97,
      115, 101, 100, 32, 111, 110, 32, 69, 100, 117, 99, 97, 116, 105, 111, 110, 32, 97,
      110, 100, 32, 87, 111, 114, 107, 32, 69, 120, 112, 101, 114, 105, 101, 110, 99, 101,
      58, 10, 10, 69, 110, 103, 105, 110, 101, 101, 114, 10, 10, 35, 35, 32, 51, 46, 32,
      78, 79, 67, 32, 67, 111, 100, 101, 115, 58, 10, 10, 35, 35, 32, 52, 46, 32, 67, 82,
      83, 32, 83, 99, 111, 114, 101, 32, 66, 114, 101, 97, 107, 100, 111, 119, 110, 58, 10,
      10, 52, 53, 48, 10, 10, 35, 35, 32, 53, 46, 32, 82, 111, 97, 100, 109, 97, 112, 32,
      102, 111, 114, 32, 67, 97, 110, 97, 100, 97, 32, 73, 109, 109, 105, 103, 114, 97,
      116, 105, 111, 110, 58, 10, 10, 65, 112, 112, 108, 121, 10]"
  using convert_dict_to_markdown_empty_noc_codes [where
      data = "\<lparr>questionnaire = Some [65, 103, 101, 58, 32, 51, 48],
      job_roles = Some [69, 110, 103, 105, 110, 101, 101, 114], noc_codes = Some [],
      crs_score = Some [52, 53, 48], roadmap = Some [65, 112, 112, 108, 121]\<rparr>"]
  by (simp add: ascii_def py_strip_def is_space_def)

text \<open>
  Claim C8. When the questionnaire is three fragments with the delimiter (the code
  points U+00E2 and U+2014) between them, none of which contains the delimiter and each
  of which has a character that is not whitespace, the questionnaire section has exactly
  three list items, one for each fragment in order: a hyphen, a space, the fragment
  without the whitespace around it, and a newline. What was removed before and behind
  the fragment is whitespace only, and what is left starts and ends with a character
  that is not whitespace.
\<close>

theorem convert_dict_to_markdown_three_fragments:
  assumes "questionnaire data = Some (f1 @ [0xE2, 0x2014] @ f2 @ [0xE2, 0x2014] @ f3)"
    and "\<not> sublist [0xE2, 0x2014] f1" and "\<not> sublist [0xE2, 0x2014] f2"
    and "\<not> sublist [0xE2, 0x2014] f3"
    and "py_strip f1 \<noteq> []" and "py_strip f2 \<noteq> []" and "py_strip f3 \<noteq> []"
  shows "markdown_content data =
     [ascii ''# Immigration Profile Report'' @ [0x0A], ascii ''## 1. Questionnaire and Response:'' @ [0x0A],
      ascii ''- '' @ py_strip f1 @ [0x0A], ascii ''- '' @ py_strip f2 @ [0x0A], ascii ''- '' @ py_strip f3 @ [0x0A],
      ascii ''## 2. Job Roles Based on Education and Work Experience:'' @ [0x0A],
      (case job_roles data of None \<Rightarrow> [] | Some v \<Rightarrow> v) @ [0x0A],
      ascii ''## 3. NOC Codes:'' @ [0x0A]] @
     map (\<lambda>noc. ascii ''- '' @ py_strip noc @ [0x0A])
       (case noc_codes data of None \<Rightarrow> [] | Some v \<Rightarrow> v) @
     [ascii ''## 4. CRS Score Breakdown:'' @ [0x0A],
      (case crs_score data of None \<Rightarrow> [] | Some v \<Rightarrow> v) @ [0x0A],
      ascii ''## 5. Roadmap for Canada Immigration:'' @ [0x0A],
      (case roadmap data of None \<Rightarrow> [] | Some v \<Rightarrow> v) @ [0x0A]] \<and>
   convert_dict_to_markdown data =
     ascii ''# Immigration Profile Report'' @ [0x0A, 0x0A] @
     ascii ''## 1. Questionnaire and Response:'' @ [0x0A, 0x0A] @
     ascii ''- '' @ py_strip f1 @ [0x0A, 0x0A] @
     ascii ''- '' @ py_strip f2 @ [0x0A, 0x0A] @
     ascii ''- '' @ py_strip f3 @ [0x0A, 0x0A] @
     ascii ''## 2. Job Roles Based on Education and Work Experience:'' @ [0x0A, 0x0A] @
     (case job_roles data of None \<Rightarrow> [] | Some v \<Rightarrow> v) @ [0x0A, 0x0A] @
     ascii ''## 3. NOC Codes:'' @ [0x0A, 0x0A] @
     concat (map (\<lambda>noc. ascii ''- '' @ py_strip noc @ [0x0A, 0x0A])
       (case noc_codes data of None \<Rightarrow> [] | Some v \<Rightarrow> v)) @
     ascii ''## 4. CRS Score Breakdown:'' @ [0x0A, 0x0A] @
     (case crs_score data of None \<Rightarrow> [] | Some v \<Rightarrow> v) @ [0x0A, 0x0A] @
     ascii ''## 5. Roadmap for Canada Immigration:'' @ [0x0A, 0x0A] @
     (case roadmap data of None \<Rightarrow> [] | Some v \<Rightarrow> v) @ [0x0A] \<and>
   (\<forall>f\<in>{f1, f2, f3}.
      (\<exists>l r. f = l @ py_strip f @ r \<and> (\<forall>c\<in>set l. is_space c) \<and> (\<forall>c\<in>set r. is_space c)) \<and>
      \<not> is_space (hd (py_strip f)) \<and> \<not> is_space (last (py_strip f)))"
proof -
  have d: "delimiter = [0xE2, 0x2014]"
    by (simp add: delimiter_def delimiter_hd_def delimiter_tl_def)
  have "py_split_sep (f1 @ [0xE2, 0x2014] @ f2 @ [0xE2, 0x2014] @ f3) delimiter_hd delimiter_tl =
          [f1, f2, f3]"
    using assms(2-4) py_split_sep_three [of f1 f2 f3] unfolding d by simp
  then have s: "py_split_sep (case questionnaire data of None \<Rightarrow> [] | Some v \<Rightarrow> v) 0xE2 [0x2014] = [f1, f2, f3]"
    using assms(1) by (simp add: delimiter_hd_def delimiter_tl_def)
  have m: "markdown_content data =
     [ascii ''# Immigration Profile Report'' @ [0x0A], ascii ''## 1. Questionnaire and Response:'' @ [0x0A],
      ascii ''- '' @ py_strip f1 @ [0x0A], ascii ''- '' @ py_strip f2 @ [0x0A], ascii ''- '' @ py_strip f3 @ [0x0A],
      ascii ''## 2. Job Roles Based on Education and Work Experience:'' @ [0x0A],
      (case job_roles data of None \<Rightarrow> [] | Some v \<Rightarrow> v) @ [0x0A],
      ascii ''## 3. NOC Codes:'' @ [0x0A]] @
     map (\<lambda>noc. ascii ''- '' @ py_strip noc @ [0x0A])
       (case noc_codes data of None \<Rightarrow> [] | Some v \<Rightarrow> v) @
     [ascii ''## 4. CRS Score Breakdown:'' @ [0x0A],
      (case crs_score data of None \<Rightarrow> [] | Some v \<Rightarrow> v) @ [0x0A],
      ascii ''## 5. Roadmap for Canada Immigration:'' @ [0x0A],
      (case roadmap data of None \<Rightarrow> [] | Some v \<Rightarrow> v) @ [0x0A]]"
    unfolding markdown_content_literal [of data] s using assms(5-7) by simp
  have c: "convert_dict_to_markdown data =
     ascii ''# Immigration Profile Report'' @ [0x0A, 0x0A] @
     ascii ''## 1. Questionnaire and Response:'' @ [0x0A, 0x0A] @
     ascii ''- '' @ py_strip f1 @ [0x0A, 0x0A] @
     ascii ''- '' @ py_strip f2 @ [0x0A, 0x0A] @
     ascii ''- '' @ py_strip f3 @ [0x0A, 0x0A] @
     ascii ''## 2. Job Roles Based on Education and Work Experience:'' @ [0x0A, 0x0A] @
     (case job_roles data of None \<Rightarrow> [] | Some v \<Rightarrow> v) @ [0x0A, 0x0A] @
     ascii ''## 3. NOC Codes:'' @ [0x0A, 0x0A] @
     concat (map (\<lambda>noc. ascii ''- '' @ py_strip noc @ [0x0A, 0x0A])
       (case noc_codes data of None \<Rightarrow> [] | Some v \<Rightarrow> v)) @
     ascii ''## 4. CRS Score Breakdown:'' @ [0x0A, 0x0A] @
     (case crs_score data of None \<Rightarrow> [] | Some v \<Rightarrow> v) @ [0x0A, 0x0A] @
     ascii ''## 5. Roadmap for Canada Immigration:'' @ [0x0A, 0x0A] @
     (case roadmap data of None \<Rightarrow> [] | Some v \<Rightarrow> v) @ [0x0A]"
    unfolding convert_dict_to_markdown_literal [of data] s using assms(5-7) by simp
  have "\<forall>f\<in>{f1, f2, f3}.
      (\<exists>l r. f = l @ py_strip f @ r \<and> (\<forall>c\<in>set l. is_space c) \<and> (\<forall>c\<in>set r. is_space c)) \<and>
      \<not> is_space (hd (py_strip f)) \<and> \<not> is_space (last (py_strip f))"
    using assms(5-7) py_strip_surrounding py_strip_ends by blast
  with m c show ?thesis by (intro conjI)
qed

theorem convert_dict_to_markdown_three_fragments_witness:
  "markdown_content
     \<lparr>questionnaire = Some ([32, 65, 103, 101, 58, 32, 51, 48, 32] @ [0xE2, 0x2014] @
        [69, 100, 117, 58, 32, 66, 83, 99] @ [0xE2, 0x2014] @
        [9, 74, 111, 98, 58, 32, 68, 101, 118, 10]),
      job_roles = None, noc_codes = None,
      crs_score = None, roadmap = None\<rparr> =
     [[35, 32, 73, 109, 109, 105, 103, 114, 97, 116, 105, 111, 110, 32, 80, 114, 111, 102,
       105, 108, 101, 32, 82, 101, 112, 111, 114, 116, 10],
      [35, 35, 32, 49, 46, 32, 81, 117, 101, 115, 116, 105, 111, 110, 110, 97, 105, 114,
       101, 32, 97, 110, 100, 32, 82, 101, 115, 112, 111, 110, 115, 101, 58, 10],
      [45, 32, 65, 103, 101, 58, 32, 51, 48, 10],
      [45, 32, 69, 100, 117, 58, 32, 66, 83, 99, 10],
      [45, 32, 74, 111, 98, 58, 32, 68, 101, 118, 10],
      [35, 35, 32, 50, 46, 32, 74, 111, 98, 32, 82, 111, 108, 101, 115, 32, 66, 97, 115,
       101, 100, 32, 111, 110, 32, 69, 100, 117, 99, 97, 116, 105, 111, 110, 32, 97, 110,
       100, 32, 87, 111, 114, 107, 32, 69, 120, 112, 101, 114, 105, 101, 110, 99, 101, 58,
       10],
      [10],
      [35, 35, 32, 51, 46, 32, 78, 79, 67, 32, 67, 111, 100, 101, 115, 58, 10],
      [35, 35, 32, 52, 46, 32, 67, 82, 83, 32, 83, 99, 111, 114, 101, 32, 66, 114, 101,
       97, 107, 100, 111, 119, 110, 58, 10],
      [10],
      [35, 35, 32, 53, 46, 32, 82, 111, 97, 100, 109, 97, 112, 32, 102, 111, 114, 32, 67,
       97, 110, 97, 100, 97, 32, 73, 109, 109, 105, 103, 114, 97, 116, 105, 111, 110, 58,
       10],
      [10]] \<and>
   convert_dict_to_markdown
     \<lparr>questionnaire = Some ([32, 65, 103, 101, 58, 32, 51, 48, 32] @ [0xE2, 0x2014] @
        [69, 100, 117, 58, 32, 66, 83, 99] @ [0xE2, 0x2014] @
        [9, 74, 111, 98, 58, 32, 68, 101, 118, 10]),
      job_roles = None, noc_codes = None,
      crs_score = None, roadmap = None\<rparr> =
     [35, 32, 73, 109, 109, 105, 103, 114, 97, 116, 105, 111, 110, 32, 80, 114, 111, 102,
      105, 108, 101, 32, 82, 101, 112, 111, 114, 116, 10, 10, 35, 35, 32, 49, 46, 32, 81,
      117, 101, 115, 116, 105, 111, 110, 110, 97, 105, 114, 101, 32, 97, 110, 100, 32, 82,
      101, 115, 112, 111, 110, 115, 101, 58, 10, 10, 45, 32, 65, 103, 101, 58, 32, 51, 48,
      10, 10, 45, 32, 69, 100, 117, 58, 32, 66, 83, 99, 10, 10, 45, 32, 74, 111, 98, 58,
      32, 68, 101, 118, 10, 10, 35, 35, 32, 50, 46, 32, 74, 111, 98, 32, 82, 111, 108, 101,
      115, 32, 66, 97, 115, 101, 100, 32, 111, 110, 32, 69, 100, 117, 99, 97, 116, 105,
      111, 110, 32, 97, 110, 100, 32, 87, 111, 114, 107, 32, 69, 120, 112, 101, 114, 105,
      101, 110, 99, 101, 58, 10, 10, 10, 10, 35, 35, 32, 51, 46, 32, 78, 79, 67, 32, 67,
      111, 100, 101, 115, 58, 10, 10, 35, 35, 32, 52, 46, 32, 67, 82, 83, 32, 83, 99, 111,
      114, 101, 32, 66, 114, 101, 97, 107, 100, 111, 119, 110, 58, 10, 10, 10, 10, 35, 35,
      32, 53, 46, 32, 82, 111, 97, 100, 109, 97, 112, 32, 102, 111, 114, 32, 67, 97, 110,
      97, 100, 97, 32, 73, 109, 109, 105, 103, 114, 97, 116, 105, 111, 110, 58, 10, 10,
      10]"
proof -
  have d: "\<not> sublist [0xE2, 0x2014] ([32, 65, 103, 101, 58, 32, 51, 48, 32] :: pystr)"
    "\<not> sublist [0xE2, 0x2014] ([69, 100, 117, 58, 32, 66, 83, 99] :: pystr)"
    "\<not> sublist [0xE2, 0x2014] ([9, 74, 111, 98, 58, 32, 68, 101, 118, 10] :: pystr)"
    by (simp_all add: sublist_Cons_right)
  have s: "py_strip [32, 65, 103, 101, 58, 32, 51, 48, 32] = [65, 103, 101, 58, 32, 51, 48]"
    "py_strip [69, 100, 117, 58, 32, 66, 83, 99] = [69, 100, 117, 58, 32, 66, 83, 99]"
    "py_strip [9, 74, 111, 98, 58, 32, 68, 101, 118, 10] = [74, 111, 98, 58, 32, 68, 101, 118]"
    by (simp_all add: py_strip_def is_space_def)
  have n: "py_strip [32, 65, 103, 101, 58, 32, 51, 48, 32] \<noteq> []"
    "py_strip [69, 100, 117, 58, 32, 66, 83, 99] \<noteq> []"
    "py_strip [9, 74, 111, 98, 58, 32, 68, 101, 118, 10] \<noteq> []"
    by (simp_all add: s)
  show ?thesis
    using convert_dict_to_markdown_three_fragments [where
      data = "\<lparr>questionnaire = Some ([32, 65, 103, 101, 58, 32, 51, 48, 32] @ [0xE2, 0x2014] @
        [69, 100, 117, 58, 32, 66, 83, 99] @ [0xE2, 0x2014] @
        [9, 74, 111, 98, 58, 32, 68, 101, 118, 10]),
      job_roles = None, noc_codes = None,
      crs_score = None, roadmap = None\<rparr>"
      and ?f1.0 = "[32, 65, 103, 101, 58, 32, 51, 48, 32]"
      and ?f2.0 = "[69, 100, 117, 58, 32, 66, 83, 99]"
      and ?f3.0 = "[9, 74, 111, 98, 58, 32, 68, 101, 118, 10]",
      OF _ d n]
    by (simp add: s ascii_def)
qed



end
